theory Spec2Isabelle
  imports Main "HOL-Library.Sublist"
begin

section \<open>The admission gate actor (class XTRNState, src/xtrnlib/index.ts lines 15-61)\<close>

text \<open>
  The durable object keeps two private fields and a durable key-value storage
  (\<open>this.ctx.storage\<close>). The counter is a JavaScript number; it is modelled as an
  unbounded \<open>int\<close>, so that the floor at 0 in \<open>release\<close> is a property of the code and
  not of the type. Every method is asynchronous in the source but runs serialized on the
  actor; it is modelled as a function from the state before the call to the returned value
  and the state after it.
\<close>

type_synonym durable_storage = "string \<Rightarrow> bool option"

record XTRNState =
  activeRequests :: int
  refuseRequests :: bool
  storage :: durable_storage

text \<open>The objects returned by \<open>tryAcquire\<close>, \<open>windDown\<close> and \<open>getState\<close>.\<close>

record acquire_result =
  allowed :: bool
  acquire_activeRequests :: int

record state_view =
  view_activeRequests :: int
  refusingRequests :: bool

text \<open>
  The constructor: the field initialisers set the counter to 0 and the flag to false, then
  \<open>blockConcurrencyWhile\<close> loads the flag: \<open>(await storage.get("refuseRequests")) || false\<close>.
\<close>

definition constructor :: "durable_storage \<Rightarrow> XTRNState" where
  "constructor st =
     \<lparr>activeRequests = 0,
      refuseRequests = (case st ''refuseRequests'' of Some b \<Rightarrow> b | None \<Rightarrow> False),
      storage = st\<rparr>"

definition tryAcquire :: "XTRNState \<Rightarrow> acquire_result \<times> XTRNState" where
  "tryAcquire s =
     (if refuseRequests s
      then (\<lparr>allowed = False, acquire_activeRequests = activeRequests s\<rparr>, s)
      else (let s' = s\<lparr>activeRequests := activeRequests s + 1\<rparr>
            in (\<lparr>allowed = True, acquire_activeRequests = activeRequests s'\<rparr>, s')))"

definition release :: "XTRNState \<Rightarrow> int \<times> XTRNState" where
  "release s =
     (let s' = s\<lparr>activeRequests := max 0 (activeRequests s - 1)\<rparr>
      in (activeRequests s', s'))"

definition windDown :: "XTRNState \<Rightarrow> int \<times> XTRNState" where
  "windDown s =
     (let s' = s\<lparr>refuseRequests := True,
                  storage := (storage s)(''refuseRequests'' \<mapsto> True)\<rparr>
      in (activeRequests s', s'))"

definition getState :: "XTRNState \<Rightarrow> state_view \<times> XTRNState" where
  "getState s =
     (\<lparr>view_activeRequests = activeRequests s, refusingRequests = refuseRequests s\<rparr>, s)"

definition reset :: "XTRNState \<Rightarrow> XTRNState" where
  "reset s =
     s\<lparr>activeRequests := 0, refuseRequests := False,
       storage := (storage s)(''refuseRequests'' := None)\<rparr>"

text \<open>
  Re-creation of the actor instance: the in-memory fields are lost, the durable storage is
  handed to the constructor of the new instance.
\<close>

definition restart :: "XTRNState \<Rightarrow> XTRNState" where
  "restart s = constructor (storage s)"

text \<open>The state of a deployment that never stored anything.\<close>

definition initial :: XTRNState where
  "initial = constructor (\<lambda>k. None)"

subsection \<open>Sequences of gate operations\<close>

datatype gate_op = TryAcquire | Release | WindDown | GetState | Reset | Restart

fun apply_gate_op :: "XTRNState \<Rightarrow> gate_op \<Rightarrow> XTRNState" where
  "apply_gate_op s TryAcquire = snd (tryAcquire s)"
| "apply_gate_op s Release = snd (release s)"
| "apply_gate_op s WindDown = snd (windDown s)"
| "apply_gate_op s GetState = snd (getState s)"
| "apply_gate_op s Reset = reset s"
| "apply_gate_op s Restart = restart s"

fun run_gate :: "XTRNState \<Rightarrow> gate_op list \<Rightarrow> XTRNState" where
  "run_gate s [] = s"
| "run_gate s (x # xs) = run_gate (apply_gate_op s x) xs"

section \<open>Values of the HTTP surface (src/xtrnlib/index.ts)\<close>

text \<open>
  JSON values, as produced by \<open>JSON.parse\<close> and handed to the validator. Numbers are
  kept as integers: no claim depends on fractions.
\<close>

datatype json =
  JNull | JBool bool | JNum int | JStr string | JArr "json list" | JObj "(string \<times> json) list"

text \<open>
  A thrown JavaScript value: an instance of \<open>Error\<close> with its message, or any other
  value with its \<open>String(...)\<close> form. The catch clause of the tool route (lines 479-485)
  reads \<open>error instanceof Error ? error.message : String(error)\<close>.
\<close>

datatype thrown = Error string | NonError string

fun thrownMessage :: "thrown \<Rightarrow> string" where
  "thrownMessage (Error message) = message"
| "thrownMessage (NonError str) = str"

text \<open>
  A schema of the external validation library, seen through the two operations the
  source uses: \<open>z.safeParse(schema, value)\<close>, which yields the normalized data or an
  error (kept as its \<open>JSON.stringify\<close> form), and \<open>z.toJSONSchema(schema)\<close>, which
  yields a description or throws.
\<close>

record zschema =
  z_safeParse :: "json \<Rightarrow> string + json"
  z_toJSONSchema :: "thrown + json"

text \<open>
  The JavaScript value passed as \<open>schema\<close> to \<open>registerTool\<close>. \<open>isZod4\<close> (lines 214-216)
  tests \<open>typeof schema === "object" && schema !== null && "_zod" in schema\<close>.
\<close>

datatype schema_value =
  NotAnObject | NullValue | ObjectValue (has_zod: bool) (validator: zschema)

fun isZod4 :: "schema_value \<Rightarrow> bool" where
  "isZod4 (ObjectValue has_zod_key z) = has_zod_key"
| "isZod4 NullValue = False"
| "isZod4 NotAnObject = False"

definition toJSONSchema :: "zschema \<Rightarrow> thrown + json" where
  "toJSONSchema sch = z_toJSONSchema sch"

subsection \<open>Server declaration\<close>

record oAuthConfig =
  provider :: string
  authorization_url :: string
  token_url :: string
  scopes :: "string list"

datatype ztype = TString | TNumber | TBoolean

record configType =
  userConfig :: "(string \<times> ztype) list option"
  oauthConfig :: "oAuthConfig option"

datatype toolTag = Mutation | Destructive

subsection \<open>Responses (class XTRNResponse, lines 137-159)\<close>

record oAuthContextConfig =
  client_id :: "string option"
  client_secret :: "string option"
  ctx_token_url :: string
  callback_url :: "string option"

record fullOAuthDetails =
  det_provider :: string
  det_client_id :: string
  det_client_secret :: string
  det_authorization_url :: string
  det_token_url :: string
  det_scopes :: "string list"
  det_callback_url :: string

record toolDetails =
  td_name :: string
  td_description :: string
  td_schema :: json
  td_tags :: "toolTag list"

record serverDetails =
  sd_name :: string
  sd_version :: string
  sd_oauth :: "fullOAuthDetails option"
  sd_config :: "(string \<times> ztype) list"
  sd_tools :: "toolDetails list"

datatype body = Text string | Json json | DetailsJson serverDetails

record response =
  status :: nat
  body :: body

definition hono_text :: "string \<Rightarrow> nat \<Rightarrow> response" where
  "hono_text str code = \<lparr>status = code, body = Text str\<rparr>"

definition hono_json :: "body \<Rightarrow> nat \<Rightarrow> response" where
  "hono_json data code = \<lparr>status = code, body = data\<rparr>"

definition res_text :: "string \<Rightarrow> response" where
  "res_text str = hono_text str 200"

definition res_json :: "json \<Rightarrow> response" where
  "res_json data = hono_json (Json data) 200"

text \<open>\<open>badRequestArgs(reason?)\<close> sends \<open>reason || ""\<close>.\<close>

definition badRequestArgs :: "string option \<Rightarrow> response" where
  "badRequestArgs reason =
     hono_text (case reason of None \<Rightarrow> [] | Some r \<Rightarrow> r) 400"

definition res_error :: "string \<Rightarrow> response" where
  "res_error err = hono_text err 500"

definition unauthorized :: response where
  "unauthorized = hono_text [] 401"

subsection \<open>Handler context, tools and the server object\<close>

record xtrnContext =
  req :: json
  ctx_config :: json
  token :: "string option"
  oauth :: "oAuthContextConfig option"

text \<open>
  A handler is modelled by its outcome on a context: the response it returns or the value
  it throws. A handler that never returns has no outcome and is outside this model.
\<close>

record tool =
  tool_name :: string
  tool_description :: string
  tool_schema :: zschema
  tool_tags :: "toolTag list"
  tool_handler :: "xtrnContext \<Rightarrow> thrown + response"

record XTRNServer =
  name :: string
  version :: string
  config :: configType
  tools :: "tool list"
  userConfigSchema :: "zschema option"

text \<open>
  What the platform supplies: \<open>atob\<close> and \<open>JSON.parse\<close> (\<open>None\<close> when they throw) and
  \<open>z.object\<close>, which builds a schema from a shape.
\<close>

record runtime =
  atob :: "string \<Rightarrow> string option"
  JSON_parse :: "string \<Rightarrow> json option"
  z_object :: "(string \<times> ztype) list \<Rightarrow> zschema"

text \<open>
  \<open>generateUserConfigSchema\<close> (lines 219-241): the shape is a JavaScript object filled key
  by key, so a repeated key keeps its first position and takes the last type.
\<close>

fun assign :: "string \<Rightarrow> ztype \<Rightarrow> (string \<times> ztype) list \<Rightarrow> (string \<times> ztype) list" where
  "assign k t [] = [(k, t)]"
| "assign k t ((k', t') # shape) =
     (if k' = k then (k, t) # shape else (k', t') # assign k t shape)"

fun build_shape :: "(string \<times> ztype) list \<Rightarrow> (string \<times> ztype) list \<Rightarrow> (string \<times> ztype) list" where
  "build_shape shape [] = shape"
| "build_shape shape ((k, t) # rest) = build_shape (assign k t shape) rest"

definition generateUserConfigSchema ::
  "runtime \<Rightarrow> (string \<times> ztype) list option \<Rightarrow> zschema option" where
  "generateUserConfigSchema rt uc =
     (case uc of
        None \<Rightarrow> None
      | Some declared \<Rightarrow>
          if declared = [] then None else Some (z_object rt (build_shape [] declared)))"

text \<open>The constructor of \<open>XTRNServer\<close> (lines 256-283); the routes are in \<open>fetch\<close> below.\<close>

definition new_XTRNServer :: "runtime \<Rightarrow> string \<Rightarrow> string \<Rightarrow> configType \<Rightarrow> XTRNServer" where
  "new_XTRNServer rt nm ver cfg =
     \<lparr>name = nm, version = ver, config = cfg, tools = [],
      userConfigSchema = generateUserConfigSchema rt (userConfig cfg)\<rparr>"

text \<open>\<open>registerTool\<close> (lines 337-363): the only check is \<open>isZod4\<close>; then the tool is pushed.\<close>

record toolOptions =
  opt_name :: string
  opt_description :: string
  opt_schema :: schema_value
  opt_tags :: "toolTag list option"
  opt_handler :: "xtrnContext \<Rightarrow> thrown + response"

definition registerTool :: "XTRNServer \<Rightarrow> toolOptions \<Rightarrow> thrown + XTRNServer" where
  \<open>registerTool srv options =
     (if \<not> isZod4 (opt_schema options)
      then Inl (Error (''Tool "'' @ opt_name options
                 @ ''" must use a Zod v4 schema. Zod v3 schemas are not supported.''))
      else Inr (srv\<lparr>tools := tools srv @
                  [\<lparr>tool_name = opt_name options,
                    tool_description = opt_description options,
                    tool_schema = validator (opt_schema options),
                    tool_tags = (case opt_tags options of None \<Rightarrow> [] | Some ts \<Rightarrow> ts),
                    tool_handler = opt_handler options\<rparr>]\<rparr>))\<close>

section \<open>The request pipeline\<close>

text \<open>
  The Hono context of one request: method, path (its segments, so \<open>/tools/echo\<close> is
  \<open>[''tools'', ''echo'']\<close>), headers, the raw body text, and the outcome of reading the
  environment bindings with \<open>env(c)\<close> of hono/adapter and destructuring them: the
  bindings, or the error thrown when there is no environment object.
\<close>

datatype http_method = GET | POST | OtherMethod

type_synonym bindings = "string \<Rightarrow> string option"

record honoCtx =
  http_method :: http_method
  path :: "string list"
  headers :: "string \<Rightarrow> string option"
  rawBody :: string
  env :: "thrown + bindings"

text \<open>
  A piece of the route handler either goes on with a value, returns a response from the
  route, or throws. Beside the outcome it lists the observable steps it ran.
\<close>

datatype 'a outcome = Value 'a | Return response | Throw thrown

datatype step =
  DecodeConfigHeader | ValidateConfig | DecodeTokenHeader | ParseBody | ValidateBody
  | ReadEnv | InvokeHandler

type_synonym 'a comp = "'a outcome \<times> step list"

fun andThen :: "'a comp \<Rightarrow> ('a \<Rightarrow> 'b comp) \<Rightarrow> 'b comp" where
  "andThen (Value a, l) f = (case f a of (out, l') \<Rightarrow> (out, l @ l'))"
| "andThen (Return r, l) f = (Return r, l)"
| "andThen (Throw e, l) f = (Throw e, l)"

fun tryCatch :: "'a comp \<Rightarrow> (thrown \<Rightarrow> 'a comp) \<Rightarrow> 'a comp" where
  "tryCatch (Throw e, l) h = (case h e of (out, l') \<Rightarrow> (out, l @ l'))"
| "tryCatch (Value a, l) h = (Value a, l)"
| "tryCatch (Return r, l) h = (Return r, l)"

text \<open>JavaScript truthiness of \<open>string | undefined\<close> and \<open>string | null\<close>.\<close>

fun truthy :: "string option \<Rightarrow> bool" where
  "truthy None = False"
| "truthy (Some str) = (str \<noteq> [])"

subsection \<open>The steps of \<open>setupToolRoute\<close> (lines 366-487), in source order\<close>

text \<open>Lines 385-395: \<open>userConfig = JSON.parse(atob(configHeader))\<close> when the header is truthy.\<close>

definition decodeConfigHeader :: "runtime \<Rightarrow> honoCtx \<Rightarrow> json comp" where
  "decodeConfigHeader rt c =
     (let configHeader = headers c ''X-XTRN-Config'' in
      if truthy configHeader then
        (case atob rt (the configHeader) of
           None \<Rightarrow>
             (Return (badRequestArgs
                (Some ''Invalid X-XTRN-Config header: must be base64-encoded JSON'')),
              [DecodeConfigHeader])
         | Some decoded \<Rightarrow>
             (case JSON_parse rt decoded of
                None \<Rightarrow>
                  (Return (badRequestArgs
                     (Some ''Invalid X-XTRN-Config header: must be base64-encoded JSON'')),
                   [DecodeConfigHeader])
              | Some parsed \<Rightarrow> (Value parsed, [DecodeConfigHeader])))
      else (Value (JObj []), []))"

text \<open>Lines 397-410: validation against the schema generated from the declared fields.\<close>

definition validateUserConfig :: "XTRNServer \<Rightarrow> json \<Rightarrow> json comp" where
  "validateUserConfig srv cfg =
     (case userConfigSchema srv of
        None \<Rightarrow> (Value cfg, [])
      | Some sch \<Rightarrow>
          (case z_safeParse sch cfg of
             Inl err \<Rightarrow>
               (Return (badRequestArgs (Some (''Config validation failed: '' @ err))),
                [ValidateConfig])
           | Inr data \<Rightarrow> (Value data, [ValidateConfig])))"

text \<open>Lines 412-422: \<open>refreshToken = atob(tokenHeader)\<close> when the header is truthy.\<close>

definition decodeTokenHeader :: "runtime \<Rightarrow> honoCtx \<Rightarrow> string option comp" where
  "decodeTokenHeader rt c =
     (let tokenHeader = headers c ''X-XTRN-Token'' in
      if truthy tokenHeader then
        (case atob rt (the tokenHeader) of
           None \<Rightarrow>
             (Return (badRequestArgs
                (Some ''Invalid X-XTRN-Token header: must be base64-encoded'')),
              [DecodeTokenHeader])
         | Some decoded \<Rightarrow> (Value (Some decoded), [DecodeTokenHeader]))
      else (Value None, []))"

text \<open>Lines 424-429: \<open>if (this.config.oauthConfig && !refreshToken)\<close>.\<close>

definition requireToken :: "XTRNServer \<Rightarrow> string option \<Rightarrow> unit comp" where
  "requireToken srv refreshToken =
     (if oauthConfig (config srv) \<noteq> None \<and> \<not> truthy refreshToken
      then (Return (badRequestArgs
              (Some ''X-XTRN-Token header is required for OAuth-enabled servers'')), [])
      else (Value (), []))"

text \<open>Lines 431-437: \<open>body = await honoCtx.req.json()\<close>.\<close>

definition parseBody :: "runtime \<Rightarrow> honoCtx \<Rightarrow> json comp" where
  "parseBody rt c =
     (case JSON_parse rt (rawBody c) of
        None \<Rightarrow> (Return (badRequestArgs (Some ''Invalid JSON body'')), [ParseBody])
      | Some parsed \<Rightarrow> (Value parsed, [ParseBody]))"

text \<open>Lines 439-445: \<open>z.safeParse(schema, body)\<close>.\<close>

definition validateBody :: "zschema \<Rightarrow> json \<Rightarrow> json comp" where
  "validateBody sch parsed =
     (case z_safeParse sch parsed of
        Inl err \<Rightarrow>
          (Return (badRequestArgs (Some (''Tool params validation failed: '' @ err))),
           [ValidateBody])
      | Inr data \<Rightarrow> (Value data, [ValidateBody]))"

text \<open>
  Lines 447-475: the context; \<open>token\<close> and \<open>oauth\<close> are attached when the server declares
  \<open>oauthConfig\<close> and the refresh token is truthy, with the secrets read from the
  environment at this point.
\<close>

definition buildContext ::
  "XTRNServer \<Rightarrow> honoCtx \<Rightarrow> json \<Rightarrow> json \<Rightarrow> string option \<Rightarrow> xtrnContext comp" where
  "buildContext srv c data cfg refreshToken =
     (case oauthConfig (config srv) of
        None \<Rightarrow> (Value \<lparr>req = data, ctx_config = cfg, token = None, oauth = None\<rparr>, [])
      | Some oc \<Rightarrow>
          if truthy refreshToken then
            (case env c of
               Inl e \<Rightarrow> (Throw e, [ReadEnv])
             | Inr b \<Rightarrow>
                 (Value \<lparr>req = data, ctx_config = cfg, token = refreshToken,
                         oauth = Some \<lparr>client_id = b ''OAUTH_CLIENT_ID'',
                                       client_secret = b ''OAUTH_CLIENT_SECRET'',
                                       ctx_token_url = token_url oc,
                                       callback_url = b ''OAUTH_CALLBACK_URL''\<rparr>\<rparr>,
                  [ReadEnv]))
          else (Value \<lparr>req = data, ctx_config = cfg, token = None, oauth = None\<rparr>, []))"

text \<open>Line 478: \<open>return await handler(xtrnCtx)\<close>.\<close>

definition invokeHandler ::
  "(xtrnContext \<Rightarrow> thrown + response) \<Rightarrow> xtrnContext \<Rightarrow> response comp" where
  "invokeHandler handler ctx =
     (case handler ctx of
        Inl e \<Rightarrow> (Throw e, [InvokeHandler])
      | Inr r \<Rightarrow> (Return r, [InvokeHandler]))"

text \<open>
  The body of the \<open>try\<close> block (lines 373-478): first the validation steps, which yield
  the validated configuration, the refresh token and the validated parameters or return a
  400 response; then the context and the handler.
\<close>

definition validateRequest ::
  "runtime \<Rightarrow> XTRNServer \<Rightarrow> zschema \<Rightarrow> honoCtx \<Rightarrow> (json \<times> string option \<times> json) comp" where
  "validateRequest rt srv sch c =
     andThen (decodeConfigHeader rt c) (\<lambda>decodedConfig.
     andThen (validateUserConfig srv decodedConfig) (\<lambda>cfg.
     andThen (decodeTokenHeader rt c) (\<lambda>refreshToken.
     andThen (requireToken srv refreshToken) (\<lambda>_.
     andThen (parseBody rt c) (\<lambda>parsed.
     andThen (validateBody sch parsed) (\<lambda>data.
     (Value (cfg, refreshToken, data), [])))))))"

definition tryBlock ::
  "runtime \<Rightarrow> XTRNServer \<Rightarrow> zschema \<Rightarrow> (xtrnContext \<Rightarrow> thrown + response) \<Rightarrow> honoCtx
   \<Rightarrow> response comp" where
  "tryBlock rt srv sch handler c =
     andThen (validateRequest rt srv sch c) (\<lambda>(cfg, refreshToken, data).
     andThen (buildContext srv c data cfg refreshToken) (\<lambda>ctx.
     invokeHandler handler ctx))"

text \<open>The route handler: the \<open>try\<close> block and its \<open>catch\<close> clause (lines 479-485).\<close>

definition toolRoute ::
  "runtime \<Rightarrow> XTRNServer \<Rightarrow> zschema \<Rightarrow> (xtrnContext \<Rightarrow> thrown + response) \<Rightarrow> honoCtx
   \<Rightarrow> response comp" where
  "toolRoute rt srv sch handler c =
     tryCatch (tryBlock rt srv sch handler c)
       (\<lambda>e. (Return (res_error (thrownMessage e)), []))"

subsection \<open>The metadata document (\<open>buildDetails\<close>, lines 489-519)\<close>

text \<open>
  \<open>Promise.all\<close> over the tools: the descriptions in order, or the first error thrown by
  \<open>toJSONSchema\<close>.
\<close>

fun describeTools :: "tool list \<Rightarrow> thrown + toolDetails list" where
  "describeTools [] = Inr []"
| "describeTools (t # ts) =
     (case toJSONSchema (tool_schema t) of
        Inl e \<Rightarrow> Inl e
      | Inr described \<Rightarrow>
          (case describeTools ts of
             Inl e \<Rightarrow> Inl e
           | Inr rest \<Rightarrow>
               Inr (\<lparr>td_name = tool_name t, td_description = tool_description t,
                     td_schema = described, td_tags = tool_tags t\<rparr> # rest)))"

text \<open>\<open>x ?? ""\<close> on a binding that may be absent.\<close>

fun orEmpty :: "string option \<Rightarrow> string" where
  "orEmpty None = []"
| "orEmpty (Some v) = v"

definition buildDetails :: "XTRNServer \<Rightarrow> honoCtx option \<Rightarrow> thrown + serverDetails" where
  "buildDetails srv honoCtx =
     (case (case oauthConfig (config srv) of
              None \<Rightarrow> Inr None
            | Some oc \<Rightarrow>
                (case (case honoCtx of None \<Rightarrow> Inr (\<lambda>k. None) | Some c \<Rightarrow> env c) of
                   Inl e \<Rightarrow> Inl e
                 | Inr oauthEnv \<Rightarrow>
                     Inr (Some \<lparr>det_provider = provider oc,
                                det_client_id = orEmpty (oauthEnv ''OAUTH_CLIENT_ID''),
                                det_client_secret = orEmpty (oauthEnv ''OAUTH_CLIENT_SECRET''),
                                det_authorization_url = authorization_url oc,
                                det_token_url = token_url oc,
                                det_scopes = scopes oc,
                                det_callback_url = orEmpty (oauthEnv ''OAUTH_CALLBACK_URL'')\<rparr>)))
      of
        Inl e \<Rightarrow> Inl e
      | Inr oauthDetails \<Rightarrow>
          (case describeTools (tools srv) of
             Inl e \<Rightarrow> Inl e
           | Inr described \<Rightarrow>
               Inr \<lparr>sd_name = name srv, sd_version = version srv, sd_oauth = oauthDetails,
                    sd_config = (case userConfig (config srv) of None \<Rightarrow> [] | Some uc \<Rightarrow> uc),
                    sd_tools = described\<rparr>))"

section \<open>Routing (the constructor's routes and \<open>fetch\<close>)\<close>

text \<open>
  What one request does: the outcome of its handlers, the gate after it, and the calls on
  the gate stub interleaved with the steps of the pipeline, in the order they happen.
  One request is followed from its arrival to its answer; calls of other requests on the
  gate in between are not part of this record.
\<close>

datatype event = Gate gate_op | Pipeline step

record exchange =
  answer :: "response outcome"
  gate :: XTRNState
  events :: "event list"

text \<open>
  \<open>setupToolMiddleware\<close> (lines 295-309): \<open>next\<close> is what the handlers behind the
  middleware do; it runs only after an allowed acquire, inside \<open>try ... finally\<close>.
\<close>

definition toolMiddleware :: "XTRNState \<Rightarrow> response comp \<Rightarrow> exchange" where
  "toolMiddleware g next =
     (case tryAcquire g of
        (acquired, g1) \<Rightarrow>
          if \<not> allowed acquired
          then \<lparr>answer = Return (hono_text ''Server is winding down'' 503), gate = g1,
                events = [Gate TryAcquire]\<rparr>
          else (case next of
                  (out, steps) \<Rightarrow>
                    (case release g1 of
                       (remaining, g2) \<Rightarrow>
                         \<lparr>answer = out, gate = g2,
                          events = [Gate TryAcquire] @ map Pipeline steps @ [Gate Release]\<rparr>)))"

text \<open>The answer of the route layer when no handler matches (Hono's default).\<close>

definition notFound :: "response comp" where
  "notFound = (Return (hono_text ''404 Not Found'' 404), [])"

text \<open>
  The routes \<open>POST /tools/${toolName}\<close> added by \<open>registerTool\<close>, in registration order: the
  first registered route that matches answers. A tool name is taken as one literal path
  segment.
\<close>

definition toolRoutes :: "runtime \<Rightarrow> XTRNServer \<Rightarrow> honoCtx \<Rightarrow> response comp" where
  "toolRoutes rt srv c =
     (if http_method c = POST then
        (case find (\<lambda>t. path c = [''tools'', tool_name t]) (tools srv) of
           None \<Rightarrow> notFound
         | Some t \<Rightarrow> toolRoute rt srv (tool_schema t) (tool_handler t) c)
      else notFound)"

text \<open>\<open>setupDetailsRoute\<close> (lines 521-525).\<close>

definition detailsRoute :: "XTRNServer \<Rightarrow> honoCtx \<Rightarrow> response comp" where
  "detailsRoute srv c =
     (case buildDetails srv (Some c) of
        Inl e \<Rightarrow> (Throw e, [])
      | Inr details \<Rightarrow> (Return (hono_json (DetailsJson details) 200), []))"

text \<open>
  The application: the middleware on \<open>/tools/*\<close> (any method), then \<open>GET /details\<close>,
  \<open>POST /wind-down\<close> (lines 311-320), \<open>GET /active-requests\<close> (lines 322-327) and
  \<open>POST /reset\<close> (lines 329-335).
\<close>

definition fetch :: "runtime \<Rightarrow> XTRNServer \<Rightarrow> honoCtx \<Rightarrow> XTRNState \<Rightarrow> exchange" where
  "fetch rt srv c g =
     (if (case path c of [] \<Rightarrow> False | seg # _ \<Rightarrow> seg = ''tools'')
      then toolMiddleware g (toolRoutes rt srv c)
      else if http_method c = GET \<and> path c = [''details'']
      then \<lparr>answer = fst (detailsRoute srv c), gate = g, events = []\<rparr>
      else if http_method c = POST \<and> path c = [''wind-down'']
      then (case windDown g of
              (active, g') \<Rightarrow>
                \<lparr>answer = Return (res_json (JObj
                    [(''message'', JStr ''Server is now refusing new requests''),
                     (''activeRequests'', JNum active)])),
                 gate = g', events = [Gate WindDown]\<rparr>)
      else if http_method c = GET \<and> path c = [''active-requests'']
      then (case getState g of
              (view, g') \<Rightarrow>
                \<lparr>answer = Return (res_json (JObj
                    [(''activeRequests'', JNum (view_activeRequests view)),
                     (''refusingRequests'', JBool (refusingRequests view))])),
                 gate = g', events = [Gate GetState]\<rparr>)
      else if http_method c = POST \<and> path c = [''reset'']
      then \<lparr>answer = Return (res_json (JObj [(''message'', JStr ''State reset'')])),
            gate = reset g, events = [Gate Reset]\<rparr>
      else \<lparr>answer = fst notFound, gate = g, events = []\<rparr>)"

section \<open>Sample servers and requests\<close>

text \<open>
  Concrete values on which the theorems below are instantiated. The platform functions
  are finite tables that agree with \<open>atob\<close> and \<open>JSON.parse\<close> on the strings used below:
  \<open>e30=\<close> is the base64 form of \<open>{}\<close>, \<open>dG9r\<close> that of \<open>tok\<close>,
  \<open>eyJsb2NhbGUiOiJlbiJ9\<close> that of \<open>{"locale":"en"}\<close>, the empty string decodes to
  itself, and \<open>!!!\<close> is not base64; \<open>{\<close> and the empty string are not JSON.
  The sample \<open>z.object\<close> accepts an object that has every key of the shape with a value
  of the declared type.
\<close>

fun has_ztype :: "ztype \<Rightarrow> json \<Rightarrow> bool" where
  "has_ztype TString (JStr s) = True"
| "has_ztype TNumber (JNum n) = True"
| "has_ztype TBoolean (JBool b) = True"
| "has_ztype t v = False"

fun has_fields :: "(string \<times> ztype) list \<Rightarrow> (string \<times> json) list \<Rightarrow> bool" where
  "has_fields [] kvs = True"
| "has_fields ((k, t) # shape) kvs =
     ((case map_of kvs k of None \<Rightarrow> False | Some v \<Rightarrow> has_ztype t v) \<and> has_fields shape kvs)"

definition sample_object :: "(string \<times> ztype) list \<Rightarrow> zschema" where
  "sample_object shape =
     \<lparr>z_safeParse = (\<lambda>v. case v of
                        JObj kvs \<Rightarrow> if has_fields shape kvs then Inr v else Inl ''invalid field''
                      | _ \<Rightarrow> Inl ''expected object''),
      z_toJSONSchema = Inr (JObj [(''type'', JStr ''object'')])\<rparr>"

definition sample_runtime :: runtime where
  \<open>sample_runtime =
     \<lparr>atob = (\<lambda>s. if s = ''e30='' then Some ''{}''
                  else if s = ''dG9r'' then Some ''tok''
                  else if s = ''eyJsb2NhbGUiOiJlbiJ9'' then Some ''{"locale":"en"}''
                  else if s = [] then Some []
                  else None),
      JSON_parse = (\<lambda>s. if s = ''{}'' then Some (JObj [])
                        else if s = ''{"locale":"en"}'' then Some (JObj [(''locale'', JStr ''en'')])
                        else if s = ''5'' then Some (JNum 5)
                        else None),
      z_object = sample_object\<rparr>\<close>

definition object_schema :: zschema where
  "object_schema =
     \<lparr>z_safeParse = (\<lambda>v. case v of JObj kvs \<Rightarrow> Inr v | _ \<Rightarrow> Inl ''expected object''),
      z_toJSONSchema = Inr (JObj [(''type'', JStr ''object'')])\<rparr>"

text \<open>A handler that echoes the refresh token of its context, and one that throws.\<close>

definition echo_token :: "xtrnContext \<Rightarrow> thrown + response" where
  "echo_token ctx =
     Inr (res_json (JObj [(''token'', (case token ctx of None \<Rightarrow> JNull | Some t \<Rightarrow> JStr t))]))"

definition failing_handler :: "xtrnContext \<Rightarrow> thrown + response" where
  "failing_handler ctx = Inl (Error ''boom'')"

definition echo_options :: toolOptions where
  "echo_options =
     \<lparr>opt_name = ''echo'', opt_description = ''Echoes the token'',
      opt_schema = ObjectValue True object_schema, opt_tags = None,
      opt_handler = echo_token\<rparr>"

definition fail_options :: toolOptions where
  "fail_options =
     \<lparr>opt_name = ''fail'', opt_description = ''Always throws'',
      opt_schema = ObjectValue True object_schema, opt_tags = Some [Mutation],
      opt_handler = failing_handler\<rparr>"

definition sample_oauth :: oAuthConfig where
  "sample_oauth =
     \<lparr>provider = ''test-provider'', authorization_url = ''https://example.com/auth'',
      token_url = ''https://example.com/token'', scopes = [''read'', ''write'']\<rparr>"

definition register_all :: "XTRNServer \<Rightarrow> toolOptions list \<Rightarrow> XTRNServer" where
  "register_all srv opts =
     foldl (\<lambda>acc opt. case registerTool acc opt of Inl e \<Rightarrow> acc | Inr srv' \<Rightarrow> srv') srv opts"

definition oauth_server :: XTRNServer where
  "oauth_server =
     register_all
       (new_XTRNServer sample_runtime ''testserver'' ''1.0.0''
          \<lparr>userConfig = None, oauthConfig = Some sample_oauth\<rparr>)
       [echo_options, fail_options]"

definition open_server :: XTRNServer where
  "open_server =
     register_all
       (new_XTRNServer sample_runtime ''pingserver'' ''1.0.0''
          \<lparr>userConfig = None, oauthConfig = None\<rparr>)
       [echo_options, fail_options]"

text \<open>The declaration of the repository's \<open>testserver\<close>: one user-config field and OAuth.\<close>

definition full_server :: XTRNServer where
  "full_server =
     register_all
       (new_XTRNServer sample_runtime ''testserver'' ''1.0.0''
          \<lparr>userConfig = Some [(''locale'', TString)], oauthConfig = Some sample_oauth\<rparr>)
       [echo_options, fail_options]"

definition sample_request ::
  "http_method \<Rightarrow> string list \<Rightarrow> string option \<Rightarrow> string option \<Rightarrow> string \<Rightarrow> honoCtx" where
  "sample_request m p configHeader tokenHeader text =
     \<lparr>http_method = m, path = p,
      headers = (\<lambda>h. if h = ''X-XTRN-Config'' then configHeader
                     else if h = ''X-XTRN-Token'' then tokenHeader else None),
      rawBody = text,
      env = Inr (\<lambda>k. if k = ''OAUTH_CLIENT_ID'' then Some ''id-1'' else None)\<rparr>"

section \<open>Conditions on a request\<close>

text \<open>
  What a request's headers amount to, read off the headers and the platform functions
  alone: the value a step has to yield and the steps that have to run for it. The config
  header, when non-empty, decodes to \<open>j\<close>; absent or empty, it leaves the empty object
  and no decode step.
\<close>

definition configHeaderYields :: "runtime \<Rightarrow> honoCtx \<Rightarrow> json \<Rightarrow> step list \<Rightarrow> bool" where
  "configHeaderYields rt c j steps =
     (case headers c ''X-XTRN-Config'' of
        None \<Rightarrow> j = JObj [] \<and> steps = []
      | Some h \<Rightarrow>
          if h = [] then j = JObj [] \<and> steps = []
          else (case atob rt h of
                  None \<Rightarrow> False
                | Some d \<Rightarrow> JSON_parse rt d = Some j \<and> steps = [DecodeConfigHeader]))"

text \<open>The decoded config \<open>j\<close> passes the server's config schema, if it has one, as \<open>cfg\<close>.\<close>

definition configValidates :: "XTRNServer \<Rightarrow> json \<Rightarrow> json \<Rightarrow> step list \<Rightarrow> bool" where
  "configValidates srv j cfg steps =
     (case userConfigSchema srv of
        None \<Rightarrow> cfg = j \<and> steps = []
      | Some us \<Rightarrow> z_safeParse us j = Inr cfg \<and> steps = [ValidateConfig])"

text \<open>The token header, when non-empty, decodes to \<open>tok\<close>; absent or empty, there is none.\<close>

definition tokenHeaderYields :: "runtime \<Rightarrow> honoCtx \<Rightarrow> string option \<Rightarrow> step list \<Rightarrow> bool" where
  "tokenHeaderYields rt c tok steps =
     (case headers c ''X-XTRN-Token'' of
        None \<Rightarrow> tok = None \<and> steps = []
      | Some h \<Rightarrow>
          if h = [] then tok = None \<and> steps = []
          else (case atob rt h of
                  None \<Rightarrow> False
                | Some t \<Rightarrow> tok = Some t \<and> steps = [DecodeTokenHeader]))"

text \<open>The calls on the gate among the events of a request, in order.\<close>

fun gate_calls :: "event list \<Rightarrow> gate_op list" where
  "gate_calls [] = []"
| "gate_calls (Gate x # es) = x # gate_calls es"
| "gate_calls (Pipeline st # es) = gate_calls es"

section \<open>Invariants used in the proofs\<close>

text \<open>The gate refuses and the flag is in durable storage.\<close>

definition draining :: "XTRNState \<Rightarrow> bool" where
  "draining s = (refuseRequests s \<and> storage s ''refuseRequests'' = Some True)"

section \<open>Properties of the gate\<close>

lemma run_gate_append: "run_gate s (xs @ ys) = run_gate (run_gate s xs) ys"
  by (induction xs arbitrary: s) simp_all

lemma activeRequests_initial: "activeRequests initial = 0"
  by (simp add: initial_def constructor_def)

lemma refuseRequests_initial: "\<not> refuseRequests initial"
  by (simp add: initial_def constructor_def)

lemma run_gate_snoc: "run_gate s (xs @ [x]) = apply_gate_op (run_gate s xs) x"
  by (simp add: run_gate_append)

lemma refuseRequests_run_no_drain:
  "set ops \<subseteq> {TryAcquire, Release} \<Longrightarrow> refuseRequests (run_gate s ops) = refuseRequests s"
proof (induction ops arbitrary: s)
  case Nil
  then show ?case by simp
next
  case (Cons x xs)
  then show ?case
    by (cases x) (auto simp: tryAcquire_def release_def Let_def)
qed

lemma open_after_acquire_release:
  "set ops \<subseteq> {TryAcquire, Release} \<Longrightarrow> \<not> refuseRequests (run_gate initial ops)"
  by (simp add: refuseRequests_run_no_drain refuseRequests_initial)

lemma activeRequests_nonneg_step:
  "0 \<le> activeRequests s \<Longrightarrow> 0 \<le> activeRequests (apply_gate_op s x)"
  by (cases x) (auto simp: tryAcquire_def release_def getState_def windDown_def reset_def
      restart_def constructor_def Let_def)

lemma activeRequests_nonneg_run:
  "0 \<le> activeRequests s \<Longrightarrow> 0 \<le> activeRequests (run_gate s ops)"
  by (induction ops arbitrary: s) (simp_all add: activeRequests_nonneg_step)

lemma activeRequests_lower_bound:
  assumes "set ops \<subseteq> {TryAcquire, Release}"
  shows "int (count_list ops TryAcquire) - int (count_list ops Release)
         \<le> activeRequests (run_gate initial ops)"
  using assms
proof (induction ops rule: rev_induct)
  case Nil
  then show ?case by (simp add: activeRequests_initial)
next
  case (snoc x xs)
  have sub: "set xs \<subseteq> {TryAcquire, Release}" using snoc.prems by simp
  have "x = TryAcquire \<or> x = Release" using snoc.prems by simp
  then show ?case using snoc.IH [OF sub] open_after_acquire_release [OF sub]
    by (auto simp: run_gate_snoc tryAcquire_def release_def Let_def)
qed

lemma activeRequests_matched:
  assumes "set ops \<subseteq> {TryAcquire, Release}"
    and "\<forall>p \<in> set (prefixes ops). count_list p Release \<le> count_list p TryAcquire"
  shows "activeRequests (run_gate initial ops)
         = int (count_list ops TryAcquire) - int (count_list ops Release)"
  using assms
proof (induction ops rule: rev_induct)
  case Nil
  then show ?case by (simp add: activeRequests_initial)
next
  case (snoc x xs)
  have sub: "set xs \<subseteq> {TryAcquire, Release}" using snoc.prems(1) by simp
  have pre: "\<forall>p \<in> set (prefixes xs). count_list p Release \<le> count_list p TryAcquire"
    using snoc.prems(2) by (simp add: in_set_prefixes)
  have ih: "activeRequests (run_gate initial xs)
            = int (count_list xs TryAcquire) - int (count_list xs Release)"
    using snoc.IH [OF sub pre] .
  have whole: "count_list (xs @ [x]) Release \<le> count_list (xs @ [x]) TryAcquire"
    using snoc.prems(2) by (simp add: in_set_prefixes)
  have "x = TryAcquire \<or> x = Release" using snoc.prems(1) by simp
  then show ?case
  proof
    assume "x = TryAcquire"
    then show ?thesis using ih open_after_acquire_release [OF sub]
      by (simp add: run_gate_snoc tryAcquire_def Let_def)
  next
    assume "x = Release"
    then show ?thesis using ih whole
      by (simp add: run_gate_snoc release_def Let_def)
  qed
qed

text \<open>
  C2 (as amended). From the initial state, after any sequence of \<open>tryAcquire\<close> and
  \<open>release\<close> calls (no \<open>windDown\<close>), with N acquires and M releases: \<open>activeRequests\<close> is
  never negative and is at least N - M; it equals N - M when no release comes without a
  matching earlier acquire, that is when every prefix of the sequence has at least as many
  acquires as releases.
\<close>

theorem gate_count:
  assumes "set ops \<subseteq> {TryAcquire, Release}"
  shows "0 \<le> activeRequests (run_gate initial ops)
       \<and> int (count_list ops TryAcquire) - int (count_list ops Release)
           \<le> activeRequests (run_gate initial ops)
       \<and> ((\<forall>p \<in> set (prefixes ops). count_list p Release \<le> count_list p TryAcquire)
            \<longrightarrow> activeRequests (run_gate initial ops)
                = int (count_list ops TryAcquire) - int (count_list ops Release))"
proof (intro conjI impI)
  show "0 \<le> activeRequests (run_gate initial ops)"
    by (rule activeRequests_nonneg_run) (simp add: activeRequests_initial)
  show "int (count_list ops TryAcquire) - int (count_list ops Release)
        \<le> activeRequests (run_gate initial ops)"
    by (rule activeRequests_lower_bound [OF assms])
next
  assume "\<forall>p \<in> set (prefixes ops). count_list p Release \<le> count_list p TryAcquire"
  then show "activeRequests (run_gate initial ops)
             = int (count_list ops TryAcquire) - int (count_list ops Release)"
    by (rule activeRequests_matched [OF assms])
qed

theorem gate_count_witness:
  "set [TryAcquire, TryAcquire, Release] \<subseteq> {TryAcquire, Release}
   \<and> list_all (\<lambda>p. count_list p Release \<le> count_list p TryAcquire)
        (prefixes [TryAcquire, TryAcquire, Release])
   \<and> activeRequests (run_gate initial [TryAcquire, TryAcquire, Release]) = 1"
proof -
  have h: "set [TryAcquire, TryAcquire, Release] \<subseteq> {TryAcquire, Release}" by simp
  have m: "list_all (\<lambda>p. count_list p Release \<le> count_list p TryAcquire)
             (prefixes [TryAcquire, TryAcquire, Release])" by simp
  then have m': "\<forall>p \<in> set (prefixes [TryAcquire, TryAcquire, Release]).
             count_list p Release \<le> count_list p TryAcquire"
    by (simp only: list_all_iff)
  have "activeRequests (run_gate initial [TryAcquire, TryAcquire, Release])
        = int (count_list [TryAcquire, TryAcquire, Release] TryAcquire)
          - int (count_list [TryAcquire, TryAcquire, Release] Release)"
    using gate_count [OF h] m' by blast
  then show ?thesis using h m by simp
qed

text \<open>
  C2 as stated fails: after \<open>release\<close> then \<open>tryAcquire\<close> there are N = 1 acquires and
  M = 1 releases, M is at most N, and \<open>activeRequests\<close> is 1, not N - M = 0: the first
  release was floored at 0.
\<close>

theorem gate_count_counterexample:
  "count_list [Release, TryAcquire] Release \<le> count_list [Release, TryAcquire] TryAcquire
   \<and> activeRequests (run_gate initial [Release, TryAcquire]) = 1
   \<and> activeRequests (run_gate initial [Release, TryAcquire])
       \<noteq> int (count_list [Release, TryAcquire] TryAcquire)
         - int (count_list [Release, TryAcquire] Release)"
  by (simp add: initial_def constructor_def tryAcquire_def release_def Let_def)

lemma draining_step: "draining s \<Longrightarrow> x \<noteq> Reset \<Longrightarrow> draining (apply_gate_op s x)"
  by (cases x) (auto simp: draining_def tryAcquire_def release_def getState_def windDown_def
      restart_def constructor_def Let_def)

lemma draining_run: "draining s \<Longrightarrow> Reset \<notin> set ops \<Longrightarrow> draining (run_gate s ops)"
proof (induction ops arbitrary: s)
  case Nil
  then show ?case by simp
next
  case (Cons x xs)
  have "x \<noteq> Reset" using Cons.prems(2) by auto
  then have "draining (apply_gate_op s x)" using Cons.prems(1) by (rule draining_step [rotated])
  moreover have "Reset \<notin> set xs" using Cons.prems(2) by simp
  ultimately show ?case using Cons.IH by simp
qed

lemma draining_windDown: "draining (snd (windDown s))"
  by (simp add: draining_def windDown_def Let_def)

lemma draining_refused:
  "draining s \<Longrightarrow>
   tryAcquire s = (\<lparr>allowed = False, acquire_activeRequests = activeRequests s\<rparr>, s)"
  by (simp add: draining_def tryAcquire_def)

text \<open>
  C3. After \<open>windDown\<close>, whatever operations follow (acquires, releases, reads, further
  \<open>windDown\<close>s, even a re-creation of the actor) as long as none is \<open>reset\<close>, the next
  \<open>tryAcquire\<close> is refused, leaves the state as it is and reports the current counter.
  A second \<open>windDown\<close> returns the same count and leaves the same (draining) state.
  After \<open>reset\<close> the gate admits again.
\<close>

theorem drain_until_reset:
  assumes "Reset \<notin> set ops"
  shows "tryAcquire (run_gate (snd (windDown s)) ops)
           = (\<lparr>allowed = False,
               acquire_activeRequests = activeRequests (run_gate (snd (windDown s)) ops)\<rparr>,
              run_gate (snd (windDown s)) ops)
       \<and> refuseRequests (run_gate (snd (windDown s)) ops)
       \<and> windDown (snd (windDown s)) = windDown s
       \<and> refuseRequests (snd (windDown s))
       \<and> allowed (fst (tryAcquire (reset (run_gate (snd (windDown s)) ops))))"
proof -
  have d: "draining (run_gate (snd (windDown s)) ops)"
    using draining_run [OF draining_windDown assms] .
  have twice: "windDown (snd (windDown s)) = windDown s"
    by (simp add: windDown_def Let_def)
  have reopened: "allowed (fst (tryAcquire (reset (run_gate (snd (windDown s)) ops))))"
    by (simp add: tryAcquire_def reset_def Let_def)
  show ?thesis
    using draining_refused [OF d] d twice reopened draining_windDown [of s]
    by (simp add: draining_def)
qed

theorem drain_until_reset_witness:
  "Reset \<notin> set [Release, TryAcquire, WindDown]
   \<and> fst (windDown (run_gate initial [TryAcquire, TryAcquire, TryAcquire])) = 3
   \<and> fst (tryAcquire (run_gate (snd (windDown (run_gate initial
            [TryAcquire, TryAcquire, TryAcquire]))) [Release, TryAcquire, WindDown]))
       = \<lparr>allowed = False, acquire_activeRequests = 2\<rparr>"
proof -
  have h: "Reset \<notin> set [Release, TryAcquire, WindDown]" by simp
  have three: "activeRequests (run_gate initial [TryAcquire, TryAcquire, TryAcquire]) = 3"
    by (simp add: initial_def constructor_def tryAcquire_def Let_def)
  have two: "activeRequests (run_gate (snd (windDown (run_gate initial
               [TryAcquire, TryAcquire, TryAcquire]))) [Release, TryAcquire, WindDown]) = 2"
    using three by (simp add: windDown_def tryAcquire_def release_def Let_def)
  show ?thesis
    using h three two
      drain_until_reset [OF h, of "run_gate initial [TryAcquire, TryAcquire, TryAcquire]"]
    by (simp add: windDown_def Let_def)
qed

text \<open>
  C4. Re-creating the actor after \<open>windDown\<close> (and after any further operations other than
  \<open>reset\<close>) gives an instance whose \<open>getState\<close> reports \<open>activeRequests = 0\<close> and
  \<open>refusingRequests = true\<close>: the counter is not kept, the flag is read back from storage.
  The counter is 0 after every re-creation, whatever the state before.
\<close>

theorem restart_keeps_flag_only:
  assumes "Reset \<notin> set ops"
  shows "fst (getState (restart (run_gate (snd (windDown s)) ops)))
           = \<lparr>view_activeRequests = 0, refusingRequests = True\<rparr>
       \<and> activeRequests (restart s) = 0"
proof -
  have "draining (run_gate (snd (windDown s)) ops)"
    using draining_run [OF draining_windDown assms] .
  then show ?thesis
    by (simp add: draining_def getState_def restart_def constructor_def)
qed

theorem restart_keeps_flag_only_witness:
  "Reset \<notin> set [Release]
   \<and> fst (getState (run_gate (snd (windDown (run_gate initial [TryAcquire, TryAcquire])))
            [Release]))
       = \<lparr>view_activeRequests = 1, refusingRequests = True\<rparr>
   \<and> fst (getState (restart (run_gate (snd (windDown (run_gate initial
            [TryAcquire, TryAcquire]))) [Release])))
       = \<lparr>view_activeRequests = 0, refusingRequests = True\<rparr>"
proof -
  have h: "Reset \<notin> set [Release]" by simp
  have before: "fst (getState (run_gate (snd (windDown (run_gate initial
                  [TryAcquire, TryAcquire]))) [Release]))
                = \<lparr>view_activeRequests = 1, refusingRequests = True\<rparr>"
    by (simp add: initial_def constructor_def tryAcquire_def windDown_def release_def
        getState_def Let_def)
  show ?thesis
    using h before
      restart_keeps_flag_only [OF h, of "run_gate initial [TryAcquire, TryAcquire]"]
    by simp
qed

section \<open>Properties of the request pipeline\<close>

lemma andThen_Value: "fst m = Value a \<Longrightarrow> andThen m f = (fst (f a), snd m @ snd (f a))"
  by (cases m) (auto split: prod.splits)

lemma andThen_Return: "fst m = Return r \<Longrightarrow> andThen m f = (Return r, snd m)"
  by (cases m) auto

lemma andThen_Throw: "fst m = Throw e \<Longrightarrow> andThen m f = (Throw e, snd m)"
  by (cases m) auto

lemma andThen_steps:
  assumes "subseq (snd m) xs" and "\<And>a. subseq (snd (f a)) ys"
  shows "subseq (snd (andThen m f)) (xs @ ys)"
proof (cases "fst m")
  case (Value a)
  then show ?thesis using assms by (simp add: andThen_Value list_emb_append_mono)
next
  case (Return r)
  then show ?thesis using assms(1) list_emb_append_mono [of "(=)" "snd m" xs "[]" ys]
    by (simp add: andThen_Return)
next
  case (Throw e)
  then show ?thesis using assms(1) list_emb_append_mono [of "(=)" "snd m" xs "[]" ys]
    by (simp add: andThen_Throw)
qed

lemma steps_decodeConfigHeader: "subseq (snd (decodeConfigHeader rt c)) [DecodeConfigHeader]"
  by (simp add: decodeConfigHeader_def Let_def split: option.splits)

lemma steps_validateUserConfig: "subseq (snd (validateUserConfig srv j)) [ValidateConfig]"
  by (simp add: validateUserConfig_def split: option.splits sum.splits)

lemma steps_decodeTokenHeader: "subseq (snd (decodeTokenHeader rt c)) [DecodeTokenHeader]"
  by (simp add: decodeTokenHeader_def Let_def split: option.splits)

lemma steps_requireToken: "subseq (snd (requireToken srv tok)) []"
  by (simp add: requireToken_def)

lemma steps_parseBody: "subseq (snd (parseBody rt c)) [ParseBody]"
  by (simp add: parseBody_def split: option.splits)

lemma steps_validateBody: "subseq (snd (validateBody sch j)) [ValidateBody]"
  by (simp add: validateBody_def split: sum.splits)

lemma steps_buildContext: "subseq (snd (buildContext srv c data cfg tok)) [ReadEnv]"
  by (simp add: buildContext_def split: option.splits sum.splits)

lemma steps_invokeHandler: "subseq (snd (invokeHandler handler ctx)) [InvokeHandler]"
  by (simp add: invokeHandler_def split: sum.splits)

lemma steps_validateRequest:
  "subseq (snd (validateRequest rt srv sch c))
     [DecodeConfigHeader, ValidateConfig, DecodeTokenHeader, ParseBody, ValidateBody]"
proof -
  have "subseq (snd (validateRequest rt srv sch c))
     ([DecodeConfigHeader] @ [ValidateConfig] @ [DecodeTokenHeader] @ [] @ [ParseBody]
        @ [ValidateBody] @ [])"
    unfolding validateRequest_def
    by (intro andThen_steps steps_decodeConfigHeader steps_validateUserConfig
        steps_decodeTokenHeader steps_requireToken steps_parseBody steps_validateBody) simp
  then show ?thesis by simp
qed

lemma steps_context_handler:
  "subseq (snd (andThen (buildContext srv c data cfg tok) (invokeHandler handler)))
     [ReadEnv, InvokeHandler]"
proof -
  have "subseq (snd (andThen (buildContext srv c data cfg tok) (invokeHandler handler)))
     ([ReadEnv] @ [InvokeHandler])"
    by (intro andThen_steps steps_buildContext steps_invokeHandler)
  then show ?thesis by simp
qed

lemma steps_tryBlock:
  "subseq (snd (tryBlock rt srv sch handler c))
     [DecodeConfigHeader, ValidateConfig, DecodeTokenHeader, ParseBody, ValidateBody,
      ReadEnv, InvokeHandler]"
proof -
  have "subseq (snd (tryBlock rt srv sch handler c))
     ([DecodeConfigHeader, ValidateConfig, DecodeTokenHeader, ParseBody, ValidateBody]
        @ [ReadEnv, InvokeHandler])"
    unfolding tryBlock_def
    by (rule andThen_steps [OF steps_validateRequest])
       (simp split: prod.splits add: steps_context_handler)
  then show ?thesis by simp
qed

lemma steps_toolRoute: "snd (toolRoute rt srv sch handler c) = snd (tryBlock rt srv sch handler c)"
  unfolding toolRoute_def
  by (cases "tryBlock rt srv sch handler c"; cases "fst (tryBlock rt srv sch handler c)") auto

lemma toolRoute_cases:
  "fst (toolRoute rt srv sch handler c) =
     (case fst (tryBlock rt srv sch handler c) of
        Throw e \<Rightarrow> Return (res_error (thrownMessage e))
      | other \<Rightarrow> other)"
  unfolding toolRoute_def
  by (cases "tryBlock rt srv sch handler c"; cases "fst (tryBlock rt srv sch handler c)") auto

lemma toolRoute_of_Return:
  "validateRequest rt srv sch c = (Return r, l) \<Longrightarrow> toolRoute rt srv sch handler c = (Return r, l)"
  by (simp add: toolRoute_def tryBlock_def)

lemma andThen_is_Value:
  "fst (andThen m f) = Value b \<Longrightarrow> \<exists>a. fst m = Value a \<and> fst (f a) = Value b"
  by (cases m; cases "fst m") (auto split: prod.splits)


lemma invokeHandler_not_Value: "fst (invokeHandler handler ctx) \<noteq> Value r"
  by (simp add: invokeHandler_def split: sum.splits)

lemma tryBlock_not_Value: "fst (tryBlock rt srv sch handler c) \<noteq> Value r"
proof
  assume "fst (tryBlock rt srv sch handler c) = Value r"
  then obtain v where v: "fst ((\<lambda>(cfg, refreshToken, data).
     andThen (buildContext srv c data cfg refreshToken) (invokeHandler handler)) v) = Value r"
    unfolding tryBlock_def by (blast dest: andThen_is_Value)
  obtain cfg tok data where "v = (cfg, tok, data)" by (cases v) auto
  with v have "fst (andThen (buildContext srv c data cfg tok) (invokeHandler handler)) = Value r"
    by simp
  then show False using invokeHandler_not_Value by (blast dest: andThen_is_Value)
qed

lemma toolRoute_returns: "\<exists>r. fst (toolRoute rt srv sch handler c) = Return r"
  using tryBlock_not_Value [of rt srv sch handler c]
  by (cases "fst (tryBlock rt srv sch handler c)") (auto simp: toolRoute_cases)

lemma toolMiddleware_allowed:
  "allowed (fst (tryAcquire g)) \<Longrightarrow>
   toolMiddleware g nxt = \<lparr>answer = fst nxt, gate = snd (release (snd (tryAcquire g))),
      events = [Gate TryAcquire] @ map Pipeline (snd nxt) @ [Gate Release]\<rparr>"
  by (cases nxt) (auto simp: toolMiddleware_def split: prod.splits)

lemma toolMiddleware_refused:
  "\<not> allowed (fst (tryAcquire g)) \<Longrightarrow>
   toolMiddleware g nxt = \<lparr>answer = Return (hono_text ''Server is winding down'' 503), gate = g,
      events = [Gate TryAcquire]\<rparr>"
  by (auto simp: toolMiddleware_def tryAcquire_def Let_def split: prod.splits if_splits)

lemma count_pipeline: "count_list (map Pipeline steps) (Gate x) = 0"
  by (induction steps) auto

lemma malformed_config:
  assumes "headers c ''X-XTRN-Config'' = Some h" "h \<noteq> []"
    and "atob rt h = None \<or> (\<exists>d. atob rt h = Some d \<and> JSON_parse rt d = None)"
  shows "toolRoute rt srv sch handler c =
     (Return \<lparr>status = 400, body = Text ''Invalid X-XTRN-Config header: must be base64-encoded JSON''\<rparr>,
      [DecodeConfigHeader])"
proof -
  have "decodeConfigHeader rt c =
     (Return \<lparr>status = 400, body = Text ''Invalid X-XTRN-Config header: must be base64-encoded JSON''\<rparr>,
      [DecodeConfigHeader])"
    using assms by (auto simp: decodeConfigHeader_def Let_def badRequestArgs_def hono_text_def)
  then show ?thesis by (simp add: toolRoute_of_Return validateRequest_def)
qed





lemma requireToken_steps: "snd (requireToken srv tok) = []"
  by (auto simp: requireToken_def)

lemma gate_calls_append: "gate_calls (xs @ ys) = gate_calls xs @ gate_calls ys"
  by (induction xs rule: gate_calls.induct) simp_all

lemma gate_calls_pipeline: "gate_calls (map Pipeline sts) = []"
  by (induction sts) simp_all

text \<open>
  C1. For a request on a path under \<open>/tools/\<close>: when \<open>tryAcquire\<close> allowed it, the
  calls on the gate are \<open>tryAcquire\<close>, then, after the steps of the handlers behind the
  middleware, \<open>release\<close>, once each; the gate afterwards is the gate after exactly that
  acquire and that release (so the counter is back where it was), whatever the handlers
  did: a 400 of validation, the handler's response, a 500 from the catch clause, a 404,
  or an error that is still thrown; the answer is theirs. When \<open>tryAcquire\<close> refused it,
  the only call is that \<open>tryAcquire\<close>, the answer is 503, \<open>release\<close> is not called and the
  gate is unchanged. In every case the gate after the request is what the recorded calls
  make of the gate before it.
\<close>

theorem release_exactly_once:
  assumes "path c = ''tools'' # rest"
  shows "(allowed (fst (tryAcquire g)) \<longrightarrow>
            events (fetch rt srv c g)
              = [Gate TryAcquire] @ map Pipeline (snd (toolRoutes rt srv c)) @ [Gate Release]
          \<and> gate (fetch rt srv c g) = snd (release (snd (tryAcquire g)))
          \<and> count_list (events (fetch rt srv c g)) (Gate Release) = 1
          \<and> count_list (events (fetch rt srv c g)) (Gate TryAcquire) = 1
          \<and> answer (fetch rt srv c g) = fst (toolRoutes rt srv c)
          \<and> (0 \<le> activeRequests g \<longrightarrow>
                activeRequests (gate (fetch rt srv c g)) = activeRequests g))
       \<and> (\<not> allowed (fst (tryAcquire g)) \<longrightarrow>
            events (fetch rt srv c g) = [Gate TryAcquire]
          \<and> count_list (events (fetch rt srv c g)) (Gate Release) = 0
          \<and> answer (fetch rt srv c g)
              = Return \<lparr>status = 503, body = Text ''Server is winding down''\<rparr>
          \<and> gate (fetch rt srv c g) = g)
       \<and> gate (fetch rt srv c g) = run_gate g (gate_calls (events (fetch rt srv c g)))
       \<and> (allowed (fst (tryAcquire g)) \<longrightarrow>
            events (toolMiddleware g (Throw e, steps))
              = [Gate TryAcquire] @ map Pipeline steps @ [Gate Release]
          \<and> gate (toolMiddleware g (Throw e, steps)) = snd (release (snd (tryAcquire g)))
          \<and> answer (toolMiddleware g (Throw e, steps)) = Throw e)"
proof -
  have f: "fetch rt srv c g = toolMiddleware g (toolRoutes rt srv c)"
    using assms by (simp add: fetch_def)
  have restored: "0 \<le> activeRequests g \<Longrightarrow> allowed (fst (tryAcquire g)) \<Longrightarrow>
      activeRequests (snd (release (snd (tryAcquire g)))) = activeRequests g"
    by (auto simp: tryAcquire_def release_def Let_def split: if_splits)
  have refused_same: "\<not> allowed (fst (tryAcquire g)) \<Longrightarrow> snd (tryAcquire g) = g"
    by (auto simp: tryAcquire_def Let_def split: if_splits)
  show ?thesis
  proof (cases "allowed (fst (tryAcquire g))")
    case True
    then show ?thesis
      using restored
      by (simp add: f toolMiddleware_allowed count_pipeline gate_calls_append
          gate_calls_pipeline)
  next
    case False
    then show ?thesis
      using refused_same
      by (simp add: f toolMiddleware_refused hono_text_def)
  qed
qed

text \<open>
  C6. The route handler always ends by returning a response: nothing it runs leaves it as
  a thrown error. When its \<open>try\<close> block throws \<open>e\<close>, the response is 500 with the text
  \<open>e.message\<close> (or \<open>String(e)\<close> when \<open>e\<close> is not an \<open>Error\<close>); in particular when, after
  the validation steps passed, the assembly of the context throws, or the handler throws
  on the assembled context.
\<close>

theorem failure_boundary:
  "(\<exists>r. fst (toolRoute rt srv sch handler c) = Return r)
   \<and> (fst (tryBlock rt srv sch handler c) = Throw e \<longrightarrow>
        fst (toolRoute rt srv sch handler c)
          = Return \<lparr>status = 500, body = Text (thrownMessage e)\<rparr>)
   \<and> (fst (validateRequest rt srv sch c) = Value (cfg, tok, data) \<longrightarrow>
        fst (buildContext srv c data cfg tok) = Throw e \<longrightarrow>
        fst (toolRoute rt srv sch handler c)
          = Return \<lparr>status = 500, body = Text (thrownMessage e)\<rparr>)
   \<and> (fst (validateRequest rt srv sch c) = Value (cfg, tok, data) \<longrightarrow>
        fst (buildContext srv c data cfg tok) = Value ctx \<longrightarrow> handler ctx = Inl e \<longrightarrow>
        fst (toolRoute rt srv sch handler c)
          = Return \<lparr>status = 500, body = Text (thrownMessage e)\<rparr>)"
  apply (intro conjI impI)
     apply (rule toolRoute_returns)
    apply (simp add: toolRoute_cases res_error_def hono_text_def)
   apply (simp add: toolRoute_cases tryBlock_def andThen_Value andThen_Throw res_error_def
      hono_text_def)
  apply (simp add: toolRoute_cases tryBlock_def andThen_Value andThen_Throw res_error_def
      hono_text_def invokeHandler_def)
  done

















lemma decodeTokenHeader_invalid:
  "headers c ''X-XTRN-Token'' = Some h \<Longrightarrow> h \<noteq> [] \<Longrightarrow> atob rt h = None \<Longrightarrow>
   decodeTokenHeader rt c
     = (Return \<lparr>status = 400, body = Text ''Invalid X-XTRN-Token header: must be base64-encoded''\<rparr>,
        [DecodeTokenHeader])"
  by (simp add: decodeTokenHeader_def Let_def badRequestArgs_def hono_text_def)


lemma decodeConfigHeader_yields:
  "configHeaderYields rt c j s1 \<Longrightarrow> decodeConfigHeader rt c = (Value j, s1)"
  by (auto simp: configHeaderYields_def decodeConfigHeader_def Let_def
      split: option.splits if_splits)

lemma validateUserConfig_yields:
  "configValidates srv j cfg s2 \<Longrightarrow> validateUserConfig srv j = (Value cfg, s2)"
  by (auto simp: configValidates_def validateUserConfig_def split: option.splits)

lemma decodeTokenHeader_yields:
  "tokenHeaderYields rt c tok s3 \<Longrightarrow> decodeTokenHeader rt c = (Value tok, s3)"
  by (auto simp: tokenHeaderYields_def decodeTokenHeader_def Let_def
      split: option.splits if_splits)

lemma fails_config_validation:
  assumes "configHeaderYields rt c j s1" "userConfigSchema srv = Some us"
    "z_safeParse us j = Inl err"
  shows "toolRoute rt srv sch handler c
         = (Return \<lparr>status = 400, body = Text (''Config validation failed: '' @ err)\<rparr>,
            s1 @ [ValidateConfig])"
proof -
  have "validateUserConfig srv j
        = (Return \<lparr>status = 400, body = Text (''Config validation failed: '' @ err)\<rparr>,
           [ValidateConfig])"
    using assms(2,3) by (simp add: validateUserConfig_def badRequestArgs_def hono_text_def)
  then show ?thesis
    using decodeConfigHeader_yields [OF assms(1)]
    by (simp add: toolRoute_of_Return validateRequest_def)
qed

lemma fails_token_decode:
  assumes "configHeaderYields rt c j s1" "configValidates srv j cfg s2"
    "headers c ''X-XTRN-Token'' = Some h" "h \<noteq> []" "atob rt h = None"
  shows "toolRoute rt srv sch handler c
         = (Return \<lparr>status = 400,
              body = Text ''Invalid X-XTRN-Token header: must be base64-encoded''\<rparr>,
            s1 @ s2 @ [DecodeTokenHeader])"
  using decodeConfigHeader_yields [OF assms(1)] validateUserConfig_yields [OF assms(2)]
    decodeTokenHeader_invalid [OF assms(3,4,5)]
  by (simp add: toolRoute_of_Return validateRequest_def)

lemma fails_token_required:
  assumes "configHeaderYields rt c j s1" "configValidates srv j cfg s2"
    "tokenHeaderYields rt c tok s3" "oauthConfig (config srv) \<noteq> None" "\<not> truthy tok"
  shows "toolRoute rt srv sch handler c
         = (Return \<lparr>status = 400,
              body = Text ''X-XTRN-Token header is required for OAuth-enabled servers''\<rparr>,
            s1 @ s2 @ s3)"
  using decodeConfigHeader_yields [OF assms(1)] validateUserConfig_yields [OF assms(2)]
    decodeTokenHeader_yields [OF assms(3)] assms(4,5)
  by (simp add: toolRoute_of_Return validateRequest_def requireToken_def badRequestArgs_def
      hono_text_def)

lemma fails_body_parse:
  assumes "configHeaderYields rt c j s1" "configValidates srv j cfg s2"
    "tokenHeaderYields rt c tok s3" "oauthConfig (config srv) = None \<or> truthy tok"
    "JSON_parse rt (rawBody c) = None"
  shows "toolRoute rt srv sch handler c
         = (Return \<lparr>status = 400, body = Text ''Invalid JSON body''\<rparr>,
            s1 @ s2 @ s3 @ [ParseBody])"
proof -
  have rq: "requireToken srv tok = (Value (), [])"
    using assms(4) by (auto simp: requireToken_def)
  show ?thesis
    using decodeConfigHeader_yields [OF assms(1)] validateUserConfig_yields [OF assms(2)]
      decodeTokenHeader_yields [OF assms(3)] rq assms(5)
    by (simp add: toolRoute_of_Return validateRequest_def parseBody_def badRequestArgs_def
        hono_text_def)
qed

lemma fails_body_validation:
  assumes "configHeaderYields rt c j s1" "configValidates srv j cfg s2"
    "tokenHeaderYields rt c tok s3" "oauthConfig (config srv) = None \<or> truthy tok"
    "JSON_parse rt (rawBody c) = Some parsed" "z_safeParse sch parsed = Inl err"
  shows "toolRoute rt srv sch handler c
         = (Return \<lparr>status = 400,
              body = Text (''Tool params validation failed: '' @ err)\<rparr>,
            s1 @ s2 @ s3 @ [ParseBody, ValidateBody])"
proof -
  have rq: "requireToken srv tok = (Value (), [])"
    using assms(4) by (auto simp: requireToken_def)
  show ?thesis
    using decodeConfigHeader_yields [OF assms(1)] validateUserConfig_yields [OF assms(2)]
      decodeTokenHeader_yields [OF assms(3)] rq assms(5,6)
    by (simp add: toolRoute_of_Return validateRequest_def parseBody_def validateBody_def
        badRequestArgs_def hono_text_def)
qed

lemma passes_validation:
  assumes "configHeaderYields rt c j s1" "configValidates srv j cfg s2"
    "tokenHeaderYields rt c tok s3" "oauthConfig (config srv) = None \<or> truthy tok"
    "JSON_parse rt (rawBody c) = Some parsed" "z_safeParse sch parsed = Inr data"
  shows "validateRequest rt srv sch c
         = (Value (cfg, tok, data), s1 @ s2 @ s3 @ [ParseBody, ValidateBody])"
proof -
  have rq: "requireToken srv tok = (Value (), [])"
    using assms(4) by (auto simp: requireToken_def)
  show ?thesis
    using decodeConfigHeader_yields [OF assms(1)] validateUserConfig_yields [OF assms(2)]
      decodeTokenHeader_yields [OF assms(3)] rq assms(5,6)
    by (simp add: validateRequest_def parseBody_def validateBody_def)
qed

text \<open>
  C5 (as amended). The validation steps run in the order config-header decode, config
  validation, token-header decode, token presence, body parse, body validation; the
  answer is the 400 of the first one that fails and exactly the steps before it and the
  failing one have run (a header is decoded only when it is non-empty, the config is
  validated only when the server declares user-config fields). In particular: a non-empty
  config header that fails \<open>atob\<close> or \<open>JSON.parse\<close> gives its 400 with no other step
  run, so the body is not parsed; a decoded config that fails validation gives the
  config-validation 400; with the config decoded and valid, a token header that fails
  \<open>atob\<close>, or a missing token on an OAuth server, gives the token's 400 with the body
  not parsed; with config and token steps passed, a body that is not JSON gives
  \<open>Invalid JSON body\<close>, and a body that fails the tool schema gives the 400 of body
  validation; when all pass, all five steps have run.
\<close>

theorem validation_order:
  "subseq (snd (toolRoute rt srv sch handler c))
     [DecodeConfigHeader, ValidateConfig, DecodeTokenHeader, ParseBody, ValidateBody,
      ReadEnv, InvokeHandler]
   \<and> (headers c ''X-XTRN-Config'' = Some h \<and> h \<noteq> []
        \<and> (atob rt h = None \<or> (\<exists>d. atob rt h = Some d \<and> JSON_parse rt d = None))
      \<longrightarrow> toolRoute rt srv sch handler c
            = (Return \<lparr>status = 400,
                 body = Text ''Invalid X-XTRN-Config header: must be base64-encoded JSON''\<rparr>,
               [DecodeConfigHeader]))
   \<and> (configHeaderYields rt c j s1 \<and> userConfigSchema srv = Some us
        \<and> z_safeParse us j = Inl err
      \<longrightarrow> toolRoute rt srv sch handler c
            = (Return \<lparr>status = 400, body = Text (''Config validation failed: '' @ err)\<rparr>,
               s1 @ [ValidateConfig]))
   \<and> (configHeaderYields rt c j s1 \<and> configValidates srv j cfg s2
        \<and> headers c ''X-XTRN-Token'' = Some h' \<and> h' \<noteq> [] \<and> atob rt h' = None
      \<longrightarrow> toolRoute rt srv sch handler c
            = (Return \<lparr>status = 400,
                 body = Text ''Invalid X-XTRN-Token header: must be base64-encoded''\<rparr>,
               s1 @ s2 @ [DecodeTokenHeader]))
   \<and> (configHeaderYields rt c j s1 \<and> configValidates srv j cfg s2
        \<and> tokenHeaderYields rt c tok s3
        \<and> oauthConfig (config srv) \<noteq> None \<and> \<not> truthy tok
      \<longrightarrow> toolRoute rt srv sch handler c
            = (Return \<lparr>status = 400,
                 body = Text ''X-XTRN-Token header is required for OAuth-enabled servers''\<rparr>,
               s1 @ s2 @ s3))
   \<and> (configHeaderYields rt c j s1 \<and> configValidates srv j cfg s2
        \<and> tokenHeaderYields rt c tok s3
        \<and> (oauthConfig (config srv) = None \<or> truthy tok)
        \<and> JSON_parse rt (rawBody c) = None
      \<longrightarrow> toolRoute rt srv sch handler c
            = (Return \<lparr>status = 400, body = Text ''Invalid JSON body''\<rparr>,
               s1 @ s2 @ s3 @ [ParseBody]))
   \<and> (configHeaderYields rt c j s1 \<and> configValidates srv j cfg s2
        \<and> tokenHeaderYields rt c tok s3
        \<and> (oauthConfig (config srv) = None \<or> truthy tok)
        \<and> JSON_parse rt (rawBody c) = Some parsed \<and> z_safeParse sch parsed = Inl err
      \<longrightarrow> toolRoute rt srv sch handler c
            = (Return \<lparr>status = 400,
                 body = Text (''Tool params validation failed: '' @ err)\<rparr>,
               s1 @ s2 @ s3 @ [ParseBody, ValidateBody]))
   \<and> (configHeaderYields rt c j s1 \<and> configValidates srv j cfg s2
        \<and> tokenHeaderYields rt c tok s3
        \<and> (oauthConfig (config srv) = None \<or> truthy tok)
        \<and> JSON_parse rt (rawBody c) = Some parsed \<and> z_safeParse sch parsed = Inr data
      \<longrightarrow> validateRequest rt srv sch c
            = (Value (cfg, tok, data), s1 @ s2 @ s3 @ [ParseBody, ValidateBody]))"
proof (intro conjI impI)
  show "subseq (snd (toolRoute rt srv sch handler c))
     [DecodeConfigHeader, ValidateConfig, DecodeTokenHeader, ParseBody, ValidateBody,
      ReadEnv, InvokeHandler]"
    by (simp add: steps_toolRoute steps_tryBlock)
next
  assume "headers c ''X-XTRN-Config'' = Some h \<and> h \<noteq> []
        \<and> (atob rt h = None \<or> (\<exists>d. atob rt h = Some d \<and> JSON_parse rt d = None))"
  then show "toolRoute rt srv sch handler c
            = (Return \<lparr>status = 400,
                 body = Text ''Invalid X-XTRN-Config header: must be base64-encoded JSON''\<rparr>,
               [DecodeConfigHeader])"
    using malformed_config [of c h rt srv sch handler] by auto
next
  assume "configHeaderYields rt c j s1 \<and> userConfigSchema srv = Some us
        \<and> z_safeParse us j = Inl err"
  then show "toolRoute rt srv sch handler c
            = (Return \<lparr>status = 400, body = Text (''Config validation failed: '' @ err)\<rparr>,
               s1 @ [ValidateConfig])"
    using fails_config_validation [of rt c j s1 srv us err sch handler] by simp
next
  assume "configHeaderYields rt c j s1 \<and> configValidates srv j cfg s2
        \<and> headers c ''X-XTRN-Token'' = Some h' \<and> h' \<noteq> [] \<and> atob rt h' = None"
  then show "toolRoute rt srv sch handler c
            = (Return \<lparr>status = 400,
                 body = Text ''Invalid X-XTRN-Token header: must be base64-encoded''\<rparr>,
               s1 @ s2 @ [DecodeTokenHeader])"
    using fails_token_decode [of rt c j s1 srv cfg s2 h' sch handler] by simp
next
  assume "configHeaderYields rt c j s1 \<and> configValidates srv j cfg s2
        \<and> tokenHeaderYields rt c tok s3
        \<and> oauthConfig (config srv) \<noteq> None \<and> \<not> truthy tok"
  then show "toolRoute rt srv sch handler c
            = (Return \<lparr>status = 400,
                 body = Text ''X-XTRN-Token header is required for OAuth-enabled servers''\<rparr>,
               s1 @ s2 @ s3)"
    using fails_token_required [of rt c j s1 srv cfg s2 tok s3 sch handler] by simp
next
  assume "configHeaderYields rt c j s1 \<and> configValidates srv j cfg s2
        \<and> tokenHeaderYields rt c tok s3
        \<and> (oauthConfig (config srv) = None \<or> truthy tok)
        \<and> JSON_parse rt (rawBody c) = None"
  then show "toolRoute rt srv sch handler c
            = (Return \<lparr>status = 400, body = Text ''Invalid JSON body''\<rparr>,
               s1 @ s2 @ s3 @ [ParseBody])"
    using fails_body_parse [of rt c j s1 srv cfg s2 tok s3 sch handler] by simp
next
  assume "configHeaderYields rt c j s1 \<and> configValidates srv j cfg s2
        \<and> tokenHeaderYields rt c tok s3
        \<and> (oauthConfig (config srv) = None \<or> truthy tok)
        \<and> JSON_parse rt (rawBody c) = Some parsed \<and> z_safeParse sch parsed = Inl err"
  then show "toolRoute rt srv sch handler c
            = (Return \<lparr>status = 400,
                 body = Text (''Tool params validation failed: '' @ err)\<rparr>,
               s1 @ s2 @ s3 @ [ParseBody, ValidateBody])"
    using fails_body_validation [of rt c j s1 srv cfg s2 tok s3 parsed sch err handler]
    by simp
next
  assume "configHeaderYields rt c j s1 \<and> configValidates srv j cfg s2
        \<and> tokenHeaderYields rt c tok s3
        \<and> (oauthConfig (config srv) = None \<or> truthy tok)
        \<and> JSON_parse rt (rawBody c) = Some parsed \<and> z_safeParse sch parsed = Inr data"
  then show "validateRequest rt srv sch c
            = (Value (cfg, tok, data), s1 @ s2 @ s3 @ [ParseBody, ValidateBody])"
    using passes_validation [of rt c j s1 srv cfg s2 tok s3 parsed sch data] by simp
qed





text \<open>
  C8. While the gate refuses: \<open>GET /details\<close> makes no call on the gate and is answered by
  the details route alone, with status 200 and the document of \<open>buildDetails\<close> whenever
  that is built; \<open>POST /tools/{name}\<close>, for any name, is answered 503 after the refused
  \<open>tryAcquire\<close>, and no handler step runs.
\<close>

theorem details_not_gated:
  assumes "refuseRequests g"
  shows "(http_method c = GET \<and> path c = [''details''] \<longrightarrow>
            fetch rt srv c g = \<lparr>answer = fst (detailsRoute srv c), gate = g, events = []\<rparr>
          \<and> (buildDetails srv (Some c) = Inr d \<longrightarrow>
               answer (fetch rt srv c g) = Return \<lparr>status = 200, body = DetailsJson d\<rparr>))
       \<and> (http_method c' = POST \<and> path c' = [''tools'', n] \<longrightarrow>
            fetch rt srv c' g
              = \<lparr>answer = Return \<lparr>status = 503, body = Text ''Server is winding down''\<rparr>,
                 gate = g, events = [Gate TryAcquire]\<rparr>)"
  using assms
  by (auto simp: fetch_def detailsRoute_def hono_json_def hono_text_def
      toolMiddleware_refused tryAcquire_def)

text \<open>
  C9 (as amended). \<open>registerTool\<close> does not look at the names already registered: with a
  Zod v4 schema it succeeds and appends the tool, also when the name is already there;
  its only error is the one for a schema that is not Zod v4.
\<close>

theorem registerTool_appends:
  "(isZod4 (opt_schema options) \<longrightarrow>
      (\<exists>srv'. registerTool srv options = Inr srv'
         \<and> map tool_name (tools srv') = map tool_name (tools srv) @ [opt_name options]))
   \<and> (\<not> isZod4 (opt_schema options) \<longrightarrow> (\<exists>e. registerTool srv options = Inl e))"
  by (simp add: registerTool_def)

text \<open>
  C9 as stated fails: on the sample server, which already has a tool \<open>echo\<close>, registering
  \<open>echo\<close> again is not an error and leaves two tools of that name.
\<close>

theorem registerTool_duplicate_counterexample:
  "opt_name echo_options \<in> set (map tool_name (tools oauth_server))
   \<and> \<not> isl (registerTool oauth_server echo_options)
   \<and> map tool_name (tools (projr (registerTool oauth_server echo_options)))
       = [''echo'', ''fail'', ''echo'']"
  by (simp add: oauth_server_def register_all_def registerTool_def echo_options_def
      fail_options_def new_XTRNServer_def)

text \<open>
  C10. On a server that declares \<open>oauthConfig\<close>, with the environment bindings \<open>b\<close> (any
  of the three names may be absent) and schemas that can be described, \<open>GET /details\<close>
  is answered 200 with a document whose \<open>oauth\<close> object is present and whose
  \<open>client_id\<close>, \<open>client_secret\<close> and \<open>callback_url\<close> are the bound values, or the empty
  string where the binding is absent.
\<close>

theorem details_missing_secrets:
  assumes "oauthConfig (config srv) = Some oc" and "env c = Inr b"
    and "describeTools (tools srv) = Inr ts"
    and "http_method c = GET" and "path c = [''details'']"
  shows "\<exists>d od. buildDetails srv (Some c) = Inr d
       \<and> answer (fetch rt srv c g) = Return \<lparr>status = 200, body = DetailsJson d\<rparr>
       \<and> sd_oauth d = Some od
       \<and> det_client_id od = (case b ''OAUTH_CLIENT_ID'' of None \<Rightarrow> [] | Some v \<Rightarrow> v)
       \<and> det_client_secret od = (case b ''OAUTH_CLIENT_SECRET'' of None \<Rightarrow> [] | Some v \<Rightarrow> v)
       \<and> det_callback_url od = (case b ''OAUTH_CALLBACK_URL'' of None \<Rightarrow> [] | Some v \<Rightarrow> v)"
  using assms
  by (auto simp: buildDetails_def fetch_def detailsRoute_def hono_json_def
      split: option.splits)

section \<open>The theorems on the sample servers\<close>

lemmas sample_defs = sample_runtime_def sample_object_def sample_request_def oauth_server_def
  open_server_def full_server_def
  register_all_def registerTool_def echo_options_def fail_options_def new_XTRNServer_def
  generateUserConfigSchema_def sample_oauth_def object_schema_def echo_token_def
  failing_handler_def

lemmas pipeline_defs = toolRoute_def tryBlock_def validateRequest_def decodeConfigHeader_def
  validateUserConfig_def decodeTokenHeader_def requireToken_def parseBody_def
  validateBody_def buildContext_def invokeHandler_def badRequestArgs_def hono_text_def
  hono_json_def res_json_def res_error_def

theorem release_exactly_once_witness:
  "path (sample_request POST [''tools'', ''echo''] None (Some ''dG9r'') ''{}'') = ''tools'' # [''echo'']
   \<and> allowed (fst (tryAcquire initial))
   \<and> events (fetch sample_runtime oauth_server
        (sample_request POST [''tools'', ''echo''] None (Some ''dG9r'') ''{}'') initial)
       = [Gate TryAcquire, Pipeline DecodeTokenHeader, Pipeline ParseBody, Pipeline ValidateBody,
          Pipeline ReadEnv, Pipeline InvokeHandler, Gate Release]
   \<and> answer (fetch sample_runtime oauth_server
        (sample_request POST [''tools'', ''echo''] None (Some ''dG9r'') ''{}'') initial)
       = Return \<lparr>status = 200, body = Json (JObj [(''token'', JStr ''tok'')])\<rparr>
   \<and> activeRequests (snd (tryAcquire initial)) = 1
   \<and> activeRequests (gate (fetch sample_runtime oauth_server
        (sample_request POST [''tools'', ''echo''] None (Some ''dG9r'') ''{}'') initial)) = 0
   \<and> events (fetch sample_runtime oauth_server
        (sample_request POST [''tools'', ''echo''] (Some ''!!!'') (Some ''dG9r'') ''{}'') initial)
       = [Gate TryAcquire, Pipeline DecodeConfigHeader, Gate Release]
   \<and> answer (fetch sample_runtime oauth_server
        (sample_request POST [''tools'', ''echo''] (Some ''!!!'') (Some ''dG9r'') ''{}'') initial)
       = Return \<lparr>status = 400,
           body = Text ''Invalid X-XTRN-Config header: must be base64-encoded JSON''\<rparr>
   \<and> activeRequests (gate (fetch sample_runtime oauth_server
        (sample_request POST [''tools'', ''echo''] (Some ''!!!'') (Some ''dG9r'') ''{}'') initial)) = 0
   \<and> count_list (events (fetch sample_runtime oauth_server
        (sample_request POST [''tools'', ''fail''] None (Some ''dG9r'') ''{}'') initial)) (Gate Release) = 1
   \<and> answer (fetch sample_runtime oauth_server
        (sample_request POST [''tools'', ''fail''] None (Some ''dG9r'') ''{}'') initial)
       = Return \<lparr>status = 500, body = Text ''boom''\<rparr>
   \<and> activeRequests (gate (fetch sample_runtime oauth_server
        (sample_request POST [''tools'', ''fail''] None (Some ''dG9r'') ''{}'') initial)) = 0
   \<and> \<not> allowed (fst (tryAcquire (snd (windDown initial))))
   \<and> events (fetch sample_runtime oauth_server
        (sample_request POST [''tools'', ''echo''] None (Some ''dG9r'') ''{}'') (snd (windDown initial)))
       = [Gate TryAcquire]
   \<and> answer (fetch sample_runtime oauth_server
        (sample_request POST [''tools'', ''echo''] None (Some ''dG9r'') ''{}'') (snd (windDown initial)))
       = Return \<lparr>status = 503, body = Text ''Server is winding down''\<rparr>
   \<and> gate (fetch sample_runtime oauth_server
        (sample_request POST [''tools'', ''echo''] None (Some ''dG9r'') ''{}'') (snd (windDown initial)))
       = snd (windDown initial)"
proof -
  let ?ok = "sample_request POST [''tools'', ''echo''] None (Some ''dG9r'') ''{}''"
  let ?bad = "sample_request POST [''tools'', ''echo''] (Some ''!!!'') (Some ''dG9r'') ''{}''"
  let ?fail = "sample_request POST [''tools'', ''fail''] None (Some ''dG9r'') ''{}''"
  have p: "path ?ok = ''tools'' # [''echo'']" "path ?bad = ''tools'' # [''echo'']"
      "path ?fail = ''tools'' # [''fail'']"
    by (simp_all add: sample_request_def)
  have a: "allowed (fst (tryAcquire initial))"
    by (simp add: initial_def constructor_def tryAcquire_def)
  have one: "activeRequests (snd (tryAcquire initial)) = 1"
    by (simp add: initial_def constructor_def tryAcquire_def)
  have zero: "activeRequests (snd (release (snd (tryAcquire initial)))) = 0"
    by (simp add: initial_def constructor_def tryAcquire_def release_def Let_def)
  have r: "\<not> allowed (fst (tryAcquire (snd (windDown initial))))"
    by (simp add: windDown_def tryAcquire_def Let_def)
  have t1: "toolRoutes sample_runtime oauth_server ?ok
            = (Return \<lparr>status = 200, body = Json (JObj [(''token'', JStr ''tok'')])\<rparr>,
               [DecodeTokenHeader, ParseBody, ValidateBody, ReadEnv, InvokeHandler])"
    by (simp add: toolRoutes_def sample_defs pipeline_defs Let_def)
  have t2: "toolRoutes sample_runtime oauth_server ?bad
            = (Return \<lparr>status = 400,
                body = Text ''Invalid X-XTRN-Config header: must be base64-encoded JSON''\<rparr>,
               [DecodeConfigHeader])"
    by (simp add: toolRoutes_def sample_defs pipeline_defs Let_def)
  have t3: "fst (toolRoutes sample_runtime oauth_server ?fail)
            = Return \<lparr>status = 500, body = Text ''boom''\<rparr>"
    by (simp add: toolRoutes_def sample_defs pipeline_defs Let_def)
  note i1 = release_exactly_once [OF p(1), where g = initial and rt = sample_runtime
        and srv = oauth_server]
  note i2 = release_exactly_once [OF p(2), where g = initial and rt = sample_runtime
        and srv = oauth_server]
  note i3 = release_exactly_once [OF p(3), where g = initial and rt = sample_runtime
        and srv = oauth_server]
  note i4 = release_exactly_once [OF p(1), where g = "snd (windDown initial)"
        and rt = sample_runtime and srv = oauth_server]
  have e1: "events (fetch sample_runtime oauth_server ?ok initial)
       = [Gate TryAcquire, Pipeline DecodeTokenHeader, Pipeline ParseBody, Pipeline ValidateBody,
          Pipeline ReadEnv, Pipeline InvokeHandler, Gate Release]"
    and a1: "answer (fetch sample_runtime oauth_server ?ok initial)
       = Return \<lparr>status = 200, body = Json (JObj [(''token'', JStr ''tok'')])\<rparr>"
    and g1: "activeRequests (gate (fetch sample_runtime oauth_server ?ok initial)) = 0"
    using i1 a zero by (simp_all add: t1)
  have e2: "events (fetch sample_runtime oauth_server ?bad initial)
       = [Gate TryAcquire, Pipeline DecodeConfigHeader, Gate Release]"
    and a2: "answer (fetch sample_runtime oauth_server ?bad initial)
       = Return \<lparr>status = 400,
           body = Text ''Invalid X-XTRN-Config header: must be base64-encoded JSON''\<rparr>"
    and g2: "activeRequests (gate (fetch sample_runtime oauth_server ?bad initial)) = 0"
    using i2 a zero by (simp_all add: t2)
  have e3: "count_list (events (fetch sample_runtime oauth_server ?fail initial)) (Gate Release) = 1"
    and a3: "answer (fetch sample_runtime oauth_server ?fail initial)
       = Return \<lparr>status = 500, body = Text ''boom''\<rparr>"
    and g3: "activeRequests (gate (fetch sample_runtime oauth_server ?fail initial)) = 0"
    using i3 a zero by (simp_all add: t3 count_pipeline)
  have e4: "events (fetch sample_runtime oauth_server ?ok (snd (windDown initial)))
       = [Gate TryAcquire]"
    and a4: "answer (fetch sample_runtime oauth_server ?ok (snd (windDown initial)))
       = Return \<lparr>status = 503, body = Text ''Server is winding down''\<rparr>"
    and g4: "gate (fetch sample_runtime oauth_server ?ok (snd (windDown initial)))
       = snd (windDown initial)"
    using i4 r by simp_all
  show ?thesis
    using p(1) a one r e1 a1 g1 e2 a2 g2 e3 a3 g3 e4 a4 g4 by simp
qed

text \<open>
  C5 as stated fails in two places. On the sample server with a user-config field and
  OAuth, a request whose config header decodes and validates, with no token header and
  a body that is not JSON, is answered with the 400 of the missing token after the two
  config steps: the reason is not the body-parse failure, and the body is not parsed.
  And a config header with an empty value, which is neither base64 of JSON (\<open>atob\<close>
  gives the empty string, \<open>JSON.parse\<close> rejects it), is treated as absent: on the open
  server the request goes on, its body is parsed and the answer is 200.
\<close>

theorem validation_order_counterexample:
  \<open>configHeaderYields sample_runtime
      (sample_request POST [''tools'', ''echo''] (Some ''eyJsb2NhbGUiOiJlbiJ9'') None ''{'')
      (JObj [(''locale'', JStr ''en'')]) [DecodeConfigHeader]
   \<and> configValidates full_server (JObj [(''locale'', JStr ''en'')])
        (JObj [(''locale'', JStr ''en'')]) [ValidateConfig]
   \<and> JSON_parse sample_runtime
        (rawBody (sample_request POST [''tools'', ''echo''] (Some ''eyJsb2NhbGUiOiJlbiJ9'') None ''{''))
       = None
   \<and> toolRoute sample_runtime full_server object_schema echo_token
        (sample_request POST [''tools'', ''echo''] (Some ''eyJsb2NhbGUiOiJlbiJ9'') None ''{'')
       = (Return \<lparr>status = 400,
            body = Text ''X-XTRN-Token header is required for OAuth-enabled servers''\<rparr>,
          [DecodeConfigHeader, ValidateConfig])
   \<and> fst (toolRoute sample_runtime full_server object_schema echo_token
        (sample_request POST [''tools'', ''echo''] (Some ''eyJsb2NhbGUiOiJlbiJ9'') None ''{''))
       \<noteq> Return \<lparr>status = 400, body = Text ''Invalid JSON body''\<rparr>
   \<and> headers (sample_request POST [''tools'', ''echo''] (Some []) None ''{}'') ''X-XTRN-Config''
       = Some []
   \<and> atob sample_runtime [] = Some []
   \<and> JSON_parse sample_runtime [] = None
   \<and> toolRoute sample_runtime open_server object_schema echo_token
        (sample_request POST [''tools'', ''echo''] (Some []) None ''{}'')
       = (Return \<lparr>status = 200, body = Json (JObj [(''token'', JNull)])\<rparr>,
          [ParseBody, ValidateBody, InvokeHandler])\<close>
  by (simp add: sample_defs pipeline_defs configHeaderYields_def configValidates_def Let_def)

theorem validation_order_witness:
  \<open>userConfigSchema full_server = Some (sample_object [(''locale'', TString)])
   \<and> configHeaderYields sample_runtime
        (sample_request POST [''tools'', ''echo''] (Some ''eyJsb2NhbGUiOiJlbiJ9'') (Some ''dG9r'') ''{}'')
        (JObj [(''locale'', JStr ''en'')]) [DecodeConfigHeader]
   \<and> configValidates full_server (JObj [(''locale'', JStr ''en'')])
        (JObj [(''locale'', JStr ''en'')]) [ValidateConfig]
   \<and> tokenHeaderYields sample_runtime
        (sample_request POST [''tools'', ''echo''] (Some ''eyJsb2NhbGUiOiJlbiJ9'') (Some ''dG9r'') ''{}'')
        (Some ''tok'') [DecodeTokenHeader]
   \<and> toolRoute sample_runtime full_server object_schema echo_token
      (sample_request POST [''tools'', ''echo''] (Some ''!!!'') (Some ''dG9r'') ''{}'')
     = (Return \<lparr>status = 400,
          body = Text ''Invalid X-XTRN-Config header: must be base64-encoded JSON''\<rparr>,
        [DecodeConfigHeader])
   \<and> toolRoute sample_runtime full_server object_schema echo_token
      (sample_request POST [''tools'', ''echo''] (Some ''e30='') (Some ''dG9r'') ''{}'')
     = (Return \<lparr>status = 400, body = Text ''Config validation failed: invalid field''\<rparr>,
        [DecodeConfigHeader, ValidateConfig])
   \<and> toolRoute sample_runtime full_server object_schema echo_token
      (sample_request POST [''tools'', ''echo''] (Some ''eyJsb2NhbGUiOiJlbiJ9'') (Some ''!!!'') ''{}'')
     = (Return \<lparr>status = 400,
          body = Text ''Invalid X-XTRN-Token header: must be base64-encoded''\<rparr>,
        [DecodeConfigHeader, ValidateConfig, DecodeTokenHeader])
   \<and> toolRoute sample_runtime full_server object_schema echo_token
      (sample_request POST [''tools'', ''echo''] (Some ''eyJsb2NhbGUiOiJlbiJ9'') None ''{}'')
     = (Return \<lparr>status = 400,
          body = Text ''X-XTRN-Token header is required for OAuth-enabled servers''\<rparr>,
        [DecodeConfigHeader, ValidateConfig])
   \<and> toolRoute sample_runtime full_server object_schema echo_token
      (sample_request POST [''tools'', ''echo''] (Some ''eyJsb2NhbGUiOiJlbiJ9'') (Some ''dG9r'') ''{'')
     = (Return \<lparr>status = 400, body = Text ''Invalid JSON body''\<rparr>,
        [DecodeConfigHeader, ValidateConfig, DecodeTokenHeader, ParseBody])
   \<and> toolRoute sample_runtime full_server object_schema echo_token
      (sample_request POST [''tools'', ''echo''] (Some ''eyJsb2NhbGUiOiJlbiJ9'') (Some ''dG9r'') ''5'')
     = (Return \<lparr>status = 400,
          body = Text ''Tool params validation failed: expected object''\<rparr>,
        [DecodeConfigHeader, ValidateConfig, DecodeTokenHeader, ParseBody, ValidateBody])
   \<and> validateRequest sample_runtime full_server object_schema
      (sample_request POST [''tools'', ''echo''] (Some ''eyJsb2NhbGUiOiJlbiJ9'') (Some ''dG9r'') ''{}'')
     = (Value (JObj [(''locale'', JStr ''en'')], Some ''tok'', JObj []),
        [DecodeConfigHeader, ValidateConfig, DecodeTokenHeader, ParseBody, ValidateBody])\<close>
proof -
  let ?good = "''eyJsb2NhbGUiOiJlbiJ9''"
  let ?cfg = "JObj [(''locale'', JStr ''en'')]"
  let ?us = "sample_object [(''locale'', TString)]"
  have us: "userConfigSchema full_server = Some ?us"
    by (simp add: full_server_def register_all_def registerTool_def echo_options_def
        fail_options_def new_XTRNServer_def generateUserConfigSchema_def sample_runtime_def)
  have oc: "oauthConfig (config full_server) \<noteq> None"
    by (simp add: full_server_def register_all_def registerTool_def echo_options_def
        fail_options_def new_XTRNServer_def)
  have ch: "configHeaderYields sample_runtime
              (sample_request POST [''tools'', ''echo''] (Some ?good) t b) ?cfg [DecodeConfigHeader]"
    for t b
    by (simp add: configHeaderYields_def sample_request_def sample_runtime_def)
  have ch0: "configHeaderYields sample_runtime
              (sample_request POST [''tools'', ''echo''] (Some ''e30='') t b) (JObj [])
              [DecodeConfigHeader]" for t b
    by (simp add: configHeaderYields_def sample_request_def sample_runtime_def)
  have cv: "configValidates full_server ?cfg ?cfg [ValidateConfig]"
    by (simp add: configValidates_def us) (simp add: sample_object_def)
  have cv0: "z_safeParse ?us (JObj []) = Inl ''invalid field''"
    by (simp add: sample_object_def)
  have th: "tokenHeaderYields sample_runtime
              (sample_request POST [''tools'', ''echo''] (Some ?good) (Some ''dG9r'') b)
              (Some ''tok'') [DecodeTokenHeader]" for b
    by (simp add: tokenHeaderYields_def sample_request_def sample_runtime_def)
  have tn: "tokenHeaderYields sample_runtime
              (sample_request POST [''tools'', ''echo''] (Some ?good) None b) None []" for b
    by (simp add: tokenHeaderYields_def sample_request_def)
  have bad_cfg: "headers (sample_request POST [''tools'', ''echo''] (Some ''!!!'') (Some ''dG9r'') ''{}'')
                   ''X-XTRN-Config'' = Some ''!!!'' \<and> ''!!!'' \<noteq> []
                 \<and> atob sample_runtime ''!!!'' = None"
    by (simp add: sample_request_def sample_runtime_def)
  have bad_tok: "headers (sample_request POST [''tools'', ''echo''] (Some ?good) (Some ''!!!'') ''{}'')
                   ''X-XTRN-Token'' = Some ''!!!'' \<and> ''!!!'' \<noteq> []
                 \<and> atob sample_runtime ''!!!'' = None"
    by (simp add: sample_request_def sample_runtime_def)
  have bodies: "JSON_parse sample_runtime
                  (rawBody (sample_request POST [''tools'', ''echo''] (Some ?good) (Some ''dG9r'') ''{''))
                = None"
      "JSON_parse sample_runtime
                  (rawBody (sample_request POST [''tools'', ''echo''] (Some ?good) (Some ''dG9r'') ''5''))
                = Some (JNum 5)"
      "JSON_parse sample_runtime
                  (rawBody (sample_request POST [''tools'', ''echo''] (Some ?good) (Some ''dG9r'') ''{}''))
                = Some (JObj [])"
      "z_safeParse object_schema (JNum 5) = Inl ''expected object''"
      "z_safeParse object_schema (JObj []) = Inr (JObj [])"
    by (simp_all add: sample_request_def sample_runtime_def object_schema_def)
  have r1: "toolRoute sample_runtime full_server object_schema echo_token
      (sample_request POST [''tools'', ''echo''] (Some ''!!!'') (Some ''dG9r'') ''{}'')
     = (Return \<lparr>status = 400,
          body = Text ''Invalid X-XTRN-Config header: must be base64-encoded JSON''\<rparr>,
        [DecodeConfigHeader])"
    using validation_order [where rt = sample_runtime and srv = full_server
        and sch = object_schema and handler = echo_token and h = "''!!!''"
        and c = "sample_request POST [''tools'', ''echo''] (Some ''!!!'') (Some ''dG9r'') ''{}''"]
      bad_cfg
    by simp
  have r2: "toolRoute sample_runtime full_server object_schema echo_token
      (sample_request POST [''tools'', ''echo''] (Some ''e30='') (Some ''dG9r'') ''{}'')
     = (Return \<lparr>status = 400, body = Text (''Config validation failed: '' @ ''invalid field'')\<rparr>,
        [DecodeConfigHeader] @ [ValidateConfig])"
    using validation_order [where rt = sample_runtime and srv = full_server
        and sch = object_schema and handler = echo_token and j = "JObj []"
        and ?s1.0 = "[DecodeConfigHeader]" and us = ?us and err = "''invalid field''"
        and c = "sample_request POST [''tools'', ''echo''] (Some ''e30='') (Some ''dG9r'') ''{}''"]
      ch0 us cv0
    by simp
  have r3: "toolRoute sample_runtime full_server object_schema echo_token
      (sample_request POST [''tools'', ''echo''] (Some ?good) (Some ''!!!'') ''{}'')
     = (Return \<lparr>status = 400,
          body = Text ''Invalid X-XTRN-Token header: must be base64-encoded''\<rparr>,
        [DecodeConfigHeader] @ [ValidateConfig] @ [DecodeTokenHeader])"
    using validation_order [where rt = sample_runtime and srv = full_server
        and sch = object_schema and handler = echo_token and j = ?cfg and cfg = ?cfg
        and ?s1.0 = "[DecodeConfigHeader]" and ?s2.0 = "[ValidateConfig]" and h' = "''!!!''"
        and c = "sample_request POST [''tools'', ''echo''] (Some ?good) (Some ''!!!'') ''{}''"]
      ch cv bad_tok
    by simp
  have r4: "toolRoute sample_runtime full_server object_schema echo_token
      (sample_request POST [''tools'', ''echo''] (Some ?good) None ''{}'')
     = (Return \<lparr>status = 400,
          body = Text ''X-XTRN-Token header is required for OAuth-enabled servers''\<rparr>,
        [DecodeConfigHeader] @ [ValidateConfig] @ [])"
    using validation_order [where rt = sample_runtime and srv = full_server
        and sch = object_schema and handler = echo_token and j = ?cfg and cfg = ?cfg
        and ?s1.0 = "[DecodeConfigHeader]" and ?s2.0 = "[ValidateConfig]" and tok = None
        and ?s3.0 = "[]"
        and c = "sample_request POST [''tools'', ''echo''] (Some ?good) None ''{}''"]
      ch cv tn oc
    by simp
  have r5: "toolRoute sample_runtime full_server object_schema echo_token
      (sample_request POST [''tools'', ''echo''] (Some ?good) (Some ''dG9r'') ''{'')
     = (Return \<lparr>status = 400, body = Text ''Invalid JSON body''\<rparr>,
        [DecodeConfigHeader] @ [ValidateConfig] @ [DecodeTokenHeader] @ [ParseBody])"
    using validation_order [where rt = sample_runtime and srv = full_server
        and sch = object_schema and handler = echo_token and j = ?cfg and cfg = ?cfg
        and ?s1.0 = "[DecodeConfigHeader]" and ?s2.0 = "[ValidateConfig]"
        and tok = "Some ''tok''" and ?s3.0 = "[DecodeTokenHeader]"
        and c = "sample_request POST [''tools'', ''echo''] (Some ?good) (Some ''dG9r'') ''{''"]
      ch cv th bodies(1)
    by simp
  have r6: "toolRoute sample_runtime full_server object_schema echo_token
      (sample_request POST [''tools'', ''echo''] (Some ?good) (Some ''dG9r'') ''5'')
     = (Return \<lparr>status = 400,
          body = Text (''Tool params validation failed: '' @ ''expected object'')\<rparr>,
        [DecodeConfigHeader] @ [ValidateConfig] @ [DecodeTokenHeader] @ [ParseBody, ValidateBody])"
    using validation_order [where rt = sample_runtime and srv = full_server
        and sch = object_schema and handler = echo_token and j = ?cfg and cfg = ?cfg
        and ?s1.0 = "[DecodeConfigHeader]" and ?s2.0 = "[ValidateConfig]"
        and tok = "Some ''tok''" and ?s3.0 = "[DecodeTokenHeader]" and parsed = "JNum 5"
        and err = "''expected object''"
        and c = "sample_request POST [''tools'', ''echo''] (Some ?good) (Some ''dG9r'') ''5''"]
      ch cv th bodies(2,4)
    by simp
  have r7: "validateRequest sample_runtime full_server object_schema
      (sample_request POST [''tools'', ''echo''] (Some ?good) (Some ''dG9r'') ''{}'')
     = (Value (?cfg, Some ''tok'', JObj []),
        [DecodeConfigHeader] @ [ValidateConfig] @ [DecodeTokenHeader] @ [ParseBody, ValidateBody])"
    using validation_order [where rt = sample_runtime and srv = full_server
        and sch = object_schema and handler = echo_token and j = ?cfg and cfg = ?cfg
        and ?s1.0 = "[DecodeConfigHeader]" and ?s2.0 = "[ValidateConfig]"
        and tok = "Some ''tok''" and ?s3.0 = "[DecodeTokenHeader]" and parsed = "JObj []"
        and data = "JObj []"
        and c = "sample_request POST [''tools'', ''echo''] (Some ?good) (Some ''dG9r'') ''{}''"]
      ch cv th bodies(3,5)
    by simp
  show ?thesis using us ch [of "Some ''dG9r''" "''{}''"] cv th [of "''{}''"] r1 r2 r3 r4 r5 r6 r7
    by simp
qed

theorem failure_boundary_witness:
  "fst (validateRequest sample_runtime oauth_server object_schema
        (sample_request POST [''tools'', ''fail''] None (Some ''dG9r'') ''{}''))
     = Value (JObj [], Some ''tok'', JObj [])
   \<and> fst (toolRoute sample_runtime oauth_server object_schema failing_handler
        (sample_request POST [''tools'', ''fail''] None (Some ''dG9r'') ''{}''))
       = Return \<lparr>status = 500, body = Text ''boom''\<rparr>
   \<and> fst (buildContext oauth_server
        ((sample_request POST [''tools'', ''echo''] None (Some ''dG9r'') ''{}'')
           \<lparr>env := Inl (Error ''no bindings'')\<rparr>) (JObj []) (JObj []) (Some ''tok''))
       = Throw (Error ''no bindings'')
   \<and> fst (toolRoute sample_runtime oauth_server object_schema echo_token
        ((sample_request POST [''tools'', ''echo''] None (Some ''dG9r'') ''{}'')
           \<lparr>env := Inl (Error ''no bindings'')\<rparr>))
       = Return \<lparr>status = 500, body = Text ''no bindings''\<rparr>"
proof -
  let ?c = "sample_request POST [''tools'', ''fail''] None (Some ''dG9r'') ''{}''"
  let ?d = "(sample_request POST [''tools'', ''echo''] None (Some ''dG9r'') ''{}'')
              \<lparr>env := Inl (Error ''no bindings'')\<rparr>"
  let ?ctx = "\<lparr>req = JObj [], ctx_config = JObj [], token = Some ''tok'',
       oauth = Some \<lparr>client_id = Some ''id-1'', client_secret = None,
                     ctx_token_url = ''https://example.com/token'', callback_url = None\<rparr>\<rparr>"
  have v: "fst (validateRequest sample_runtime oauth_server object_schema ?c)
           = Value (JObj [], Some ''tok'', JObj [])"
    by (simp add: sample_defs pipeline_defs Let_def)
  have bc: "fst (buildContext oauth_server ?c (JObj []) (JObj []) (Some ''tok'')) = Value ?ctx"
    by (simp add: sample_defs buildContext_def)
  have hf: "failing_handler ?ctx = Inl (Error ''boom'')"
    by (simp add: failing_handler_def)
  have r1: "fst (toolRoute sample_runtime oauth_server object_schema failing_handler ?c)
       = Return \<lparr>status = 500, body = Text (thrownMessage (Error ''boom''))\<rparr>"
    using failure_boundary [where rt = sample_runtime and srv = oauth_server
        and sch = object_schema and handler = failing_handler and c = ?c
        and cfg = "JObj []" and tok = "Some ''tok''" and data = "JObj []" and ctx = ?ctx
        and e = "Error ''boom''"] v bc hf
    by blast
  have v2: "fst (validateRequest sample_runtime oauth_server object_schema ?d)
           = Value (JObj [], Some ''tok'', JObj [])"
    by (simp add: sample_defs pipeline_defs Let_def)
  have bc2: "fst (buildContext oauth_server ?d (JObj []) (JObj []) (Some ''tok''))
             = Throw (Error ''no bindings'')"
    by (simp add: sample_defs buildContext_def)
  have r2: "fst (toolRoute sample_runtime oauth_server object_schema echo_token ?d)
       = Return \<lparr>status = 500, body = Text (thrownMessage (Error ''no bindings''))\<rparr>"
    using failure_boundary [where rt = sample_runtime and srv = oauth_server
        and sch = object_schema and handler = echo_token and c = ?d
        and cfg = "JObj []" and tok = "Some ''tok''" and data = "JObj []"
        and e = "Error ''no bindings''"] v2 bc2
    by blast
  show ?thesis using v r1 bc2 r2 by simp
qed


theorem details_not_gated_witness:
  "refuseRequests (snd (windDown initial))
   \<and> \<not> isl (buildDetails oauth_server (Some (sample_request GET [''details''] None None [])))
   \<and> answer (fetch sample_runtime oauth_server (sample_request GET [''details''] None None [])
        (snd (windDown initial)))
       = Return \<lparr>status = 200,
           body = DetailsJson (projr (buildDetails oauth_server
                    (Some (sample_request GET [''details''] None None []))))\<rparr>
   \<and> sd_name (projr (buildDetails oauth_server
        (Some (sample_request GET [''details''] None None [])))) = ''testserver''
   \<and> answer (fetch sample_runtime oauth_server
        (sample_request POST [''tools'', ''echo''] None (Some ''dG9r'') ''{}'') (snd (windDown initial)))
       = Return \<lparr>status = 503, body = Text ''Server is winding down''\<rparr>"
proof -
  let ?d = "sample_request GET [''details''] None None []"
  let ?t = "sample_request POST [''tools'', ''echo''] None (Some ''dG9r'') ''{}''"
  have r: "refuseRequests (snd (windDown initial))" by (simp add: windDown_def Let_def)
  have ok: "\<not> isl (buildDetails oauth_server (Some ?d))
            \<and> sd_name (projr (buildDetails oauth_server (Some ?d))) = ''testserver''"
    by (simp add: sample_defs buildDetails_def toJSONSchema_def)
  then have bd: "buildDetails oauth_server (Some ?d)
                 = Inr (projr (buildDetails oauth_server (Some ?d)))"
    by (cases "buildDetails oauth_server (Some ?d)") auto
  have m: "http_method ?d = GET \<and> path ?d = [''details'']
           \<and> http_method ?t = POST \<and> path ?t = [''tools'', ''echo'']"
    by (simp add: sample_request_def)
  note inst = details_not_gated [OF r, where rt = sample_runtime and srv = oauth_server
      and c = ?d and c' = ?t and n = "''echo''"
      and d = "projr (buildDetails oauth_server (Some ?d))"]
  have r1: "answer (fetch sample_runtime oauth_server ?d (snd (windDown initial)))
       = Return \<lparr>status = 200,
           body = DetailsJson (projr (buildDetails oauth_server (Some ?d)))\<rparr>"
    using inst m bd by blast
  have r2: "answer (fetch sample_runtime oauth_server ?t (snd (windDown initial)))
       = Return \<lparr>status = 503, body = Text ''Server is winding down''\<rparr>"
    using inst m by simp
  show ?thesis using r ok r1 r2 by simp
qed

theorem registerTool_appends_witness:
  "isZod4 (opt_schema echo_options)
   \<and> opt_name echo_options \<in> set (map tool_name (tools oauth_server))
   \<and> (\<exists>srv'. registerTool oauth_server echo_options = Inr srv'
         \<and> map tool_name (tools srv') = [''echo'', ''fail'', ''echo''])
   \<and> \<not> isZod4 (opt_schema (echo_options\<lparr>opt_schema := ObjectValue False object_schema\<rparr>))
   \<and> (\<exists>e. registerTool open_server
               (echo_options\<lparr>opt_name := ''fresh'', opt_schema := ObjectValue False object_schema\<rparr>)
             = Inl e)"
proof -
  have z: "isZod4 (opt_schema echo_options)" by (simp add: echo_options_def)
  have nz: "\<not> isZod4 (opt_schema (echo_options\<lparr>opt_schema := ObjectValue False object_schema\<rparr>))"
    by simp
  have nz': "\<not> isZod4 (opt_schema (echo_options\<lparr>opt_name := ''fresh'',
               opt_schema := ObjectValue False object_schema\<rparr>))"
    by simp
  have names: "map tool_name (tools oauth_server) = [''echo'', ''fail'']
               \<and> opt_name echo_options = ''echo''"
    by (simp add: sample_defs)
  have a: "\<exists>srv'. registerTool oauth_server echo_options = Inr srv'
         \<and> map tool_name (tools srv') = map tool_name (tools oauth_server) @ [opt_name echo_options]"
    using registerTool_appends [of echo_options oauth_server] z by blast
  have b: "\<exists>e. registerTool open_server
               (echo_options\<lparr>opt_name := ''fresh'', opt_schema := ObjectValue False object_schema\<rparr>)
             = Inl e"
    using registerTool_appends [of "echo_options\<lparr>opt_name := ''fresh'',
               opt_schema := ObjectValue False object_schema\<rparr>" open_server] nz' by blast
  show ?thesis using z nz names a b by simp
qed

theorem details_missing_secrets_witness:
  "oauthConfig (config oauth_server) = Some sample_oauth
   \<and> env (sample_request GET [''details''] None None [])
       = Inr (\<lambda>k. if k = ''OAUTH_CLIENT_ID'' then Some ''id-1'' else None)
   \<and> \<not> isl (describeTools (tools oauth_server))
   \<and> (\<exists>d od. answer (fetch sample_runtime oauth_server
                 (sample_request GET [''details''] None None []) initial)
               = Return \<lparr>status = 200, body = DetailsJson d\<rparr>
         \<and> sd_oauth d = Some od
         \<and> det_client_id od = ''id-1'' \<and> det_client_secret od = [] \<and> det_callback_url od = [])"
proof -
  let ?c = "sample_request GET [''details''] None None []"
  let ?b = "\<lambda>k. if k = ''OAUTH_CLIENT_ID'' then Some ''id-1'' else None"
  have oc: "oauthConfig (config oauth_server) = Some sample_oauth"
    by (simp add: sample_defs)
  have e: "env ?c = Inr ?b" by (simp add: sample_request_def)
  have t: "\<not> isl (describeTools (tools oauth_server))"
    by (simp add: sample_defs toJSONSchema_def)
  then have t': "describeTools (tools oauth_server) = Inr (projr (describeTools (tools oauth_server)))"
    by (cases "describeTools (tools oauth_server)") auto
  have m: "http_method ?c = GET" and p: "path ?c = [''details'']"
    by (simp_all add: sample_request_def)
  show ?thesis
    using oc e t details_missing_secrets [OF oc e t' m p, of sample_runtime initial]
    by auto
qed

end
